theory Spec2Isabelle
  imports Complex_Main "HOL-Library.AList" "HOL-Library.Sublist"
begin

section \<open>Values, rows and frames\<close>

text \<open>
  The scrape module (\<^verbatim>\<open>write_into_db.py\<close>) keeps every table in a pandas DataFrame.
  A cell of such a table is a label string, a float, a timestamp, or missing (pandas
  writes a missing cell as NaN). Floats are modelled as real numbers: the rounding of
  64-bit floats, the signed zero, and the overflow of a literal such as \<^verbatim>\<open>1e999\<close> to
  infinity (with \<^verbatim>\<open>inf - inf\<close> being NaN) are left out, so a statement about the size of
  a computed number holds of the code only where these do not occur. A Python string is a list of code points; \<^typ>\<open>char\<close> covers the code
  points below 256.

  A row is an association list from column name to cell, in column order. A frame holds
  its column names and its rows. Frames with two columns of one name are not modelled:
  an operation that would build one ends with \<open>DuplicateColumns\<close>.
\<close>

datatype py_error =
    KeyError string
  | ValueError
  | TypeError
  | AttributeError
  | IndexError
  | HTTPError
  | DuplicateColumns

datatype cell = Str string | Num real | Time int | NaN

type_synonym row = "(string \<times> cell) list"

record frame =
  cols :: "string list"
  rows :: "row list"

definition cell_of :: "row \<Rightarrow> string \<Rightarrow> cell" where
  "cell_of r c = (case map_of r c of Some v \<Rightarrow> v | None \<Rightarrow> NaN)"

definition uniq :: "'a list \<Rightarrow> 'a list" where
  \<comment> \<open>the elements in the order of their first occurrence\<close>
  "uniq xs = rev (remdups (rev xs))"

definition DataFrame :: "row list \<Rightarrow> frame" where
  \<comment> \<open>\<^verbatim>\<open>pd.DataFrame(records)\<close> for a list of dicts: the columns are the keys in the
      order they are first seen, and a key a record lacks is a missing cell\<close>
  "DataFrame records =
     (let cs = uniq (concat (map (map fst) records))
      in \<lparr>cols = cs, rows = map (\<lambda>r. map (\<lambda>c. (c, cell_of r c)) cs) records\<rparr>)"

definition empty_df :: "frame \<Rightarrow> bool" where
  \<comment> \<open>\<^verbatim>\<open>df.empty\<close>: an axis of length 0\<close>
  "empty_df df \<longleftrightarrow> cols df = [] \<or> rows df = []"

definition err_bind :: "'e + 'a \<Rightarrow> ('a \<Rightarrow> 'e + 'b) \<Rightarrow> 'e + 'b" where
  "err_bind m f = (case m of Inl e \<Rightarrow> Inl e | Inr x \<Rightarrow> f x)"


section \<open>Character classes and the float literal\<close>

definition is_digit :: "char \<Rightarrow> bool" where
  \<comment> \<open>\<^verbatim>\<open>[0-9]\<close>, and \<^verbatim>\<open>\d\<close> on the code points below 256\<close>
  "is_digit c \<longleftrightarrow> c \<in> set ''0123456789''"

definition word_char :: "char \<Rightarrow> bool" where
  \<comment> \<open>\<^verbatim>\<open>\w\<close> of a str pattern: alphanumeric or underscore; below 256 these are the ASCII
      ones and the Latin-1 letters, superscript digits and fractions\<close>
  "word_char c \<longleftrightarrow>
     (let n = (of_char c :: nat)
      in (48 \<le> n \<and> n \<le> 57) \<or> (65 \<le> n \<and> n \<le> 90) \<or> n = 95 \<or> (97 \<le> n \<and> n \<le> 122)
         \<or> n = 170 \<or> n = 178 \<or> n = 179 \<or> n = 181 \<or> n = 185 \<or> n = 186
         \<or> n = 188 \<or> n = 189 \<or> n = 190
         \<or> (192 \<le> n \<and> n \<le> 214) \<or> (216 \<le> n \<and> n \<le> 246) \<or> (248 \<le> n \<and> n \<le> 255))"

definition value_char :: "char \<Rightarrow> bool" where
  \<comment> \<open>\<^verbatim>\<open>[0-9.e+-]\<close>\<close>
  "value_char c \<longleftrightarrow> is_digit c \<or> c \<in> set ''.e+-''"

definition line_break :: "char \<Rightarrow> bool" where
  \<comment> \<open>the line boundaries of \<^verbatim>\<open>str.splitlines\<close> below 256:
      LF, VT, FF, CR, FS, GS, RS and NEL\<close>
  "line_break c \<longleftrightarrow>
     c \<in> {CHR 0x0A, CHR 0x0B, CHR 0x0C, CHR 0x0D, CHR 0x1C, CHR 0x1D, CHR 0x1E, CHR 0x85}"

definition digit_val :: "char \<Rightarrow> nat" where
  "digit_val c = of_char c - 48"

definition nat_of_digits :: "string \<Rightarrow> nat" where
  "nat_of_digits ds = foldl (\<lambda>n c. 10 * n + digit_val c) 0 ds"

definition digits_value :: "string \<Rightarrow> real" where
  \<comment> \<open>the number a run of decimal digits writes\<close>
  "digits_value ds = foldl (\<lambda>x c. 10 * x + real (digit_val c)) 0 ds"

definition split_sign :: "string \<Rightarrow> real \<times> string" where
  "split_sign s =
     (case s of
        [] \<Rightarrow> (1, [])
      | c # r \<Rightarrow> if c = CHR ''+'' then (1, r) else if c = CHR ''-'' then (- 1, r) else (1, s))"

definition py_float :: "string \<Rightarrow> real option" where
  \<comment> \<open>\<^verbatim>\<open>float(s)\<close> on a string over \<^verbatim>\<open>[0-9.e+-]\<close>, which is all the patterns
      capture: sign, digits with an optional point, optional exponent. \<open>None\<close> is
      the ValueError of a string that is no such literal.\<close>
  "py_float s =
     (let (sg, s1) = split_sign s;
          ip = takeWhile is_digit s1;
          r1 = dropWhile is_digit s1;
          (fp, r2) = (case r1 of
                        [] \<Rightarrow> ([], [])
                      | c # r \<Rightarrow> if c = CHR ''.''
                                then (takeWhile is_digit r, dropWhile is_digit r)
                                else ([], r1));
          mant = digits_value ip + digits_value fp / 10 ^ length fp
      in if ip = [] \<and> fp = [] then None
         else (case r2 of
                 [] \<Rightarrow> Some (sg * mant)
               | c # r3 \<Rightarrow>
                   if c \<noteq> CHR ''e'' then None
                   else (let (es, ds) = split_sign r3
                         in if ds = [] \<or> \<not> list_all is_digit ds then None
                            else Some (sg * mant *
                                   (if es < 0 then 1 / 10 ^ nat_of_digits ds
                                    else 10 ^ nat_of_digits ds)))))"


section \<open>The exposition parser\<close>

text \<open>
  Every call of \<^verbatim>\<open>parse_metric\<close> passes one of two pattern shapes, with a metric
  name of letters and underscores:
  \<^verbatim>\<open>NAME\{([^}]*)\} ([0-9.e+-]+)\<close> (\<open>Labelled NAME\<close>) and
  \<^verbatim>\<open>NAME(?:\{([^}]*)\})? ([0-9.e+-]+)\<close> (\<open>OptLabelled NAME\<close>).
  \<^verbatim>\<open>regex.match\<close> anchors the pattern at the start of the line and not at its end.
\<close>

datatype pattern = Labelled string | OptLabelled string

fun strip_prefix :: "string \<Rightarrow> string \<Rightarrow> string option" where
  "strip_prefix [] s = Some s"
| "strip_prefix (p # ps) [] = None"
| "strip_prefix (p # ps) (c # cs) = (if p = c then strip_prefix ps cs else None)"

definition match_block :: "string \<Rightarrow> (string \<times> string) option" where
  \<comment> \<open>\<^verbatim>\<open>\{([^}]*)\}\<close> at the head of \<open>s\<close>: the group and what follows the brace\<close>
  "match_block s =
     (case s of
        [] \<Rightarrow> None
      | c # r \<Rightarrow>
          if c \<noteq> CHR ''{'' then None
          else (case dropWhile (\<lambda>x. x \<noteq> CHR ''}'') r of
                  [] \<Rightarrow> None
                | _ # r' \<Rightarrow> Some (takeWhile (\<lambda>x. x \<noteq> CHR ''}'') r, r')))"

definition match_value :: "string \<Rightarrow> string option" where
  \<comment> \<open>\<^verbatim>\<open> ([0-9.e+-]+)\<close> at the head of \<open>s\<close>: the longest run, at least one character\<close>
  "match_value s =
     (case s of
        [] \<Rightarrow> None
      | c # r \<Rightarrow>
          if c \<noteq> CHR '' '' then None
          else (let v = takeWhile value_char r in if v = [] then None else Some v))"

fun regex_match :: "pattern \<Rightarrow> string \<Rightarrow> (string option \<times> string) option" where
  "regex_match (Labelled name) line =
     (case strip_prefix name line of
        None \<Rightarrow> None
      | Some r \<Rightarrow>
          (case match_block r of
             None \<Rightarrow> None
           | Some (g, r') \<Rightarrow>
               (case match_value r' of None \<Rightarrow> None | Some v \<Rightarrow> Some (Some g, v))))"
| "regex_match (OptLabelled name) line =
     (case strip_prefix name line of
        None \<Rightarrow> None
      | Some r \<Rightarrow>
          (case (case match_block r of
                   None \<Rightarrow> None
                 | Some (g, r') \<Rightarrow>
                     (case match_value r' of None \<Rightarrow> None | Some v \<Rightarrow> Some (Some g, v))) of
             Some m \<Rightarrow> Some m
           | None \<Rightarrow> (case match_value r of None \<Rightarrow> None | Some v \<Rightarrow> Some (None, v))))"

definition match_label :: "string \<Rightarrow> (string \<times> string \<times> string) option" where
  \<comment> \<open>\<^verbatim>\<open>(\w+)="(.*?)"\<close> at the head of \<open>s\<close>: key, value and the text after the
      closing quote\<close>
  "match_label s =
     (let k = takeWhile word_char s
      in if k = [] then None
         else (case dropWhile word_char s of
                 [] \<Rightarrow> None
               | c # r \<Rightarrow>
                   if c \<noteq> CHR ''='' then None
                   else (case r of
                           [] \<Rightarrow> None
                         | q # r' \<Rightarrow>
                             if q \<noteq> CHR 0x22 then None
                             else (case dropWhile (\<lambda>x. x \<noteq> CHR 0x22) r' of
                                     [] \<Rightarrow> None
                                   | _ # rest \<Rightarrow>
                                       Some (k, takeWhile (\<lambda>x. x \<noteq> CHR 0x22) r', rest)))))"

lemma match_label_shorter:
  "match_label s = Some (k, v, rest) \<Longrightarrow> length rest < length s"
proof -
  assume m: "match_label s = Some (k, v, rest)"
  have d1: "length (dropWhile P xs) \<le> length xs" for P and xs :: string
    by (induction xs) auto
  from m obtain c r q r' x where
    a: "dropWhile word_char s = c # r" and b: "r = q # r'"
    and e: "dropWhile (\<lambda>x. x \<noteq> CHR 0x22) r' = x # rest"
    by (auto simp: match_label_def Let_def split: if_splits list.splits)
  have "length rest < length r'" using d1 [of "\<lambda>x. x \<noteq> CHR 0x22" r'] e by simp
  also have "\<dots> < length r" using b by simp
  also have "\<dots> < length s" using d1 [of word_char s] a by simp
  finally show ?thesis .
qed

function findall_labels :: "string \<Rightarrow> (string \<times> string) list" where
  "findall_labels [] = []"
| "findall_labels (c # cs) =
     (case match_label (c # cs) of
        Some (k, v, rest) \<Rightarrow> (k, v) # findall_labels rest
      | None \<Rightarrow> findall_labels cs)"
  by pat_completeness auto
termination
  by (relation "measure length") (auto dest: match_label_shorter)

definition dict :: "(string \<times> string) list \<Rightarrow> row" where
  \<comment> \<open>\<^verbatim>\<open>dict(pairs)\<close>: a later pair of the same key replaces the value and keeps
      the key's place\<close>
  "dict ps = foldl (\<lambda>d (k, v). AList.update k (Str v) d) [] ps"

lemma dropWhile_shorter: "length (dropWhile P xs) \<le> length xs"
  by (induction xs) auto

function splitlines :: "string \<Rightarrow> string list" where
  "splitlines [] = []"
| "splitlines (c # cs) =
     (let l = takeWhile (\<lambda>x. \<not> line_break x) (c # cs)
      in case dropWhile (\<lambda>x. \<not> line_break x) (c # cs) of
           [] \<Rightarrow> [l]
         | b # r \<Rightarrow>
             l # splitlines (if b = CHR 0x0D \<and> r \<noteq> [] \<and> hd r = CHR 0x0A then tl r else r))"
  by pat_completeness auto
termination
proof (relation "measure length", goal_cases)
  case 1
  show ?case by simp
next
  case (2 c cs l b r)
  have "length (b # r) \<le> length (c # cs)"
    using dropWhile_shorter [of "\<lambda>x. \<not> line_break x" "c # cs"] 2 by simp
  moreover have "length (tl r) \<le> length r" by simp
  ultimately show ?case by auto
qed

definition parse_line :: "pattern \<Rightarrow> string \<Rightarrow> string \<Rightarrow> (py_error + row) option" where
  \<comment> \<open>the body of the loop for one line: \<open>None\<close> when the pattern does not match (the
      line is skipped), the error of \<^verbatim>\<open>float(value)\<close>, or the record appended\<close>
  "parse_line pat value_name line =
     (case regex_match pat line of
        None \<Rightarrow> None
      | Some (labels_str, v) \<Rightarrow>
          Some (let labels = (case labels_str of
                                None \<Rightarrow> []
                              | Some ls \<Rightarrow> if ls = [] then [] else dict (findall_labels ls))
                in case py_float v of
                     None \<Rightarrow> Inl ValueError
                   | Some x \<Rightarrow> Inr (AList.update value_name (Num x) labels)))"

fun parse_lines :: "pattern \<Rightarrow> string \<Rightarrow> string list \<Rightarrow> py_error + row list" where
  "parse_lines pat value_name [] = Inr []"
| "parse_lines pat value_name (l # ls) =
     (case parse_line pat value_name l of
        None \<Rightarrow> parse_lines pat value_name ls
      | Some (Inl e) \<Rightarrow> Inl e
      | Some (Inr r) \<Rightarrow>
          (case parse_lines pat value_name ls of
             Inl e \<Rightarrow> Inl e
           | Inr rs \<Rightarrow> Inr (r # rs)))"

definition parse_metric :: "pattern \<Rightarrow> string \<Rightarrow> string \<Rightarrow> py_error + frame" where
  "parse_metric pat text value_name =
     (case parse_lines pat value_name (splitlines text) of
        Inl e \<Rightarrow> Inl e
      | Inr records \<Rightarrow> Inr (DataFrame records))"


section \<open>Frame operations\<close>

text \<open>
  The pandas operations the scrape module uses. A \<^verbatim>\<open>KeyError\<close> carries the column
  that is missing. Arithmetic on a column goes cell by cell: a missing cell stays
  missing, and a string cell is a \<^verbatim>\<open>TypeError\<close>.
\<close>

definition getcol :: "frame \<Rightarrow> string \<Rightarrow> py_error + cell list" where
  \<comment> \<open>\<^verbatim>\<open>df[c]\<close>\<close>
  "getcol df c =
     (if c \<in> set (cols df) then Inr (map (\<lambda>r. cell_of r c) (rows df)) else Inl (KeyError c))"

definition setcol :: "frame \<Rightarrow> string \<Rightarrow> cell list \<Rightarrow> frame" where
  \<comment> \<open>\<^verbatim>\<open>df[c] = series\<close>: an existing column is replaced in place, a new one is added last\<close>
  "setcol df c vs =
     \<lparr>cols = (if c \<in> set (cols df) then cols df else cols df @ [c]),
      rows = map (\<lambda>(r, v). AList.update c v r) (zip (rows df) vs)\<rparr>"

definition setcol_const :: "frame \<Rightarrow> string \<Rightarrow> cell \<Rightarrow> frame" where
  \<comment> \<open>\<^verbatim>\<open>df[c] = scalar\<close>\<close>
  "setcol_const df c v = setcol df c (replicate (length (rows df)) v)"

definition select :: "frame \<Rightarrow> string list \<Rightarrow> py_error + frame" where
  \<comment> \<open>\<^verbatim>\<open>df[[c1, c2, ...]]\<close>\<close>
  "select df cs =
     (case filter (\<lambda>c. c \<notin> set (cols df)) cs of
        c # _ \<Rightarrow> Inl (KeyError c)
      | [] \<Rightarrow> Inr \<lparr>cols = cs, rows = map (\<lambda>r. map (\<lambda>c. (c, cell_of r c)) cs) (rows df)\<rparr>)"

definition rename :: "(string \<times> string) list \<Rightarrow> frame \<Rightarrow> py_error + frame" where
  \<comment> \<open>\<^verbatim>\<open>df.rename(columns=m)\<close>\<close>
  "rename m df =
     (let f = (\<lambda>c. case map_of m c of Some c' \<Rightarrow> c' | None \<Rightarrow> c)
      in if distinct (map f (cols df))
         then Inr \<lparr>cols = map f (cols df), rows = map (map (\<lambda>(c, v). (f c, v))) (rows df)\<rparr>
         else Inl DuplicateColumns)"

definition merge :: "frame \<Rightarrow> frame \<Rightarrow> string list \<Rightarrow> string \<times> string \<Rightarrow> py_error + frame" where
  \<comment> \<open>\<^verbatim>\<open>pd.merge(left, right, on=on, suffixes=suffixes)\<close>, an inner join: every key must
      be a column of both frames; a pair of rows joins when its key cells are equal
      (pandas joins a missing key with a missing key); a column of both frames that is
      no key gets the suffixes; the rows follow the order of the left frame.\<close>
  "merge left right on sfx =
     (if on = [] then Inl IndexError
      else case filter (\<lambda>k. k \<notin> set (cols right) \<or> k \<notin> set (cols left)) on of
        k # _ \<Rightarrow> Inl (KeyError k)
      | [] \<Rightarrow>
          (let overlap = (\<lambda>c. c \<notin> set on \<and> c \<in> set (cols left) \<and> c \<in> set (cols right));
               lname = (\<lambda>c. if overlap c then c @ fst sfx else c);
               rname = (\<lambda>c. if overlap c then c @ snd sfx else c);
               rcols = filter (\<lambda>c. c \<notin> set on) (cols right)
           in if \<not> distinct (map lname (cols left) @ map rname rcols) then Inl DuplicateColumns
              else Inr \<lparr>cols = map lname (cols left) @ map rname rcols,
                        rows = concat (map (\<lambda>l.
                                 map (\<lambda>r. map (\<lambda>c. (lname c, cell_of l c)) (cols left)
                                          @ map (\<lambda>c. (rname c, cell_of r c)) rcols)
                                   (filter (\<lambda>r. map (cell_of r) on = map (cell_of l) on)
                                      (rows right)))
                                 (rows left))\<rparr>))"

fun cell_sub :: "cell \<Rightarrow> cell \<Rightarrow> py_error + cell" where
  "cell_sub (Num x) (Num y) = Inr (Num (x - y))"
| "cell_sub (Num x) NaN = Inr NaN"
| "cell_sub NaN (Num y) = Inr NaN"
| "cell_sub NaN NaN = Inr NaN"
| "cell_sub _ _ = Inl TypeError"

fun cell_map :: "(real \<Rightarrow> real) \<Rightarrow> cell \<Rightarrow> py_error + cell" where
  "cell_map f (Num x) = Inr (Num (f x))"
| "cell_map f NaN = Inr NaN"
| "cell_map f _ = Inl TypeError"

fun sequence :: "('e + 'a) list \<Rightarrow> 'e + 'a list" where
  \<comment> \<open>the results in order, or the first error\<close>
  "sequence [] = Inr []"
| "sequence (m # ms) =
     (case m of
        Inl e \<Rightarrow> Inl e
      | Inr x \<Rightarrow> (case sequence ms of Inl e \<Rightarrow> Inl e | Inr xs \<Rightarrow> Inr (x # xs)))"

definition series_sub :: "cell list \<Rightarrow> cell list \<Rightarrow> py_error + cell list" where
  \<comment> \<open>\<^verbatim>\<open>a - b\<close> on two columns of one frame\<close>
  "series_sub a b = sequence (map (\<lambda>(x, y). cell_sub x y) (zip a b))"

definition series_map :: "(real \<Rightarrow> real) \<Rightarrow> cell list \<Rightarrow> py_error + cell list" where
  \<comment> \<open>a column through arithmetic with constants\<close>
  "series_map f a = sequence (map (cell_map f) a)"

fun cell_ge0 :: "cell \<Rightarrow> bool" where
  \<comment> \<open>\<^verbatim>\<open>>= 0\<close> in a mask: false on a missing cell\<close>
  "cell_ge0 (Num x) = (0 \<le> x)"
| "cell_ge0 _ = False"


section \<open>The rate calculator\<close>

definition calculate_rate :: "frame \<Rightarrow> frame \<Rightarrow> string list \<Rightarrow> string \<Rightarrow> py_error + frame" where
  "calculate_rate df1 df2 label_cols value_col =
     err_bind (merge df1 df2 label_cols (''_old'', ''_new'')) (\<lambda>df.
     err_bind (getcol df (value_col @ ''_new'')) (\<lambda>new.
     err_bind (getcol df (value_col @ ''_old'')) (\<lambda>old.
     err_bind (series_sub new old) (\<lambda>delta.
     err_bind (series_map (\<lambda>x. x / 60) delta) (\<lambda>rate.
       let df' = setcol df (value_col @ ''_rate'') rate
       in Inr (df'\<lparr>rows := filter (\<lambda>r. cell_ge0 (cell_of r (value_col @ ''_rate'')))
                                 (rows df')\<rparr>))))))"


section \<open>The store and the insert operation\<close>

text \<open>
  The world a cycle runs in: the rows appended to the relational store (each with its
  table), the lines printed, the readings the clock will give (the \<open>n\<close>-th call of
  \<^verbatim>\<open>datetime.now\<close> reads \<open>clock n\<close>) and the seconds slept. \<^verbatim>\<open>to_sql\<close> with
  \<^verbatim>\<open>if_exists='append'\<close> is taken to succeed. A statement that raises leaves the
  world as it was when it raised.
\<close>

datatype diag =
    Inserted nat string
  | NoDataToInsert string
  | NoCpuData
  | FetchingFirst
  | FetchingSecond
  | AllStored

record world =
  tables :: "(string \<times> row) list"
  stdout :: "diag list"
  clock :: "nat \<Rightarrow> int"
  reads :: nat
  slept :: real

type_synonym 'a io = "world \<Rightarrow> (py_error + 'a) \<times> world"

definition try_pure :: "py_error + 'a \<Rightarrow> ('a \<Rightarrow> 'b io) \<Rightarrow> 'b io" where
  "try_pure m f w = (case m of Inl e \<Rightarrow> (Inl e, w) | Inr x \<Rightarrow> f x w)"

definition and_then :: "unit io \<Rightarrow> 'b io \<Rightarrow> 'b io" where
  \<comment> \<open>one statement after another: the second does not run when the first raises\<close>
  "and_then m k w = (case m w of (Inl e, w') \<Rightarrow> (Inl e, w') | (Inr _, w') \<Rightarrow> k w')"

definition return_unit :: "unit io" where
  "return_unit w = (Inr (), w)"

definition emit :: "diag \<Rightarrow> unit io" where
  "emit d w = (Inr (), w\<lparr>stdout := stdout w @ [d]\<rparr>)"

definition time_sleep :: "real \<Rightarrow> unit io" where
  "time_sleep secs w = (Inr (), w\<lparr>slept := slept w + secs\<rparr>)"

definition digits_dot :: "string \<Rightarrow> (string \<times> string) option" where
  \<comment> \<open>\<^verbatim>\<open>\d+\.\<close> at the head of \<open>s\<close>: the digits and what follows the point\<close>
  "digits_dot s =
     (let d = takeWhile is_digit s
      in if d = [] then None
         else (case dropWhile is_digit s of
                 [] \<Rightarrow> None
               | c # r \<Rightarrow> if c = CHR ''.'' then Some (d, r) else None))"

definition match_quad :: "string \<Rightarrow> string option" where
  \<comment> \<open>\<^verbatim>\<open>(\d+\.\d+\.\d+\.\d+)\<close> at the head of \<open>s\<close>\<close>
  "match_quad s =
     (case digits_dot s of
        None \<Rightarrow> None
      | Some (a, r1) \<Rightarrow>
          (case digits_dot r1 of
             None \<Rightarrow> None
           | Some (b, r2) \<Rightarrow>
               (case digits_dot r2 of
                  None \<Rightarrow> None
                | Some (c, r3) \<Rightarrow>
                    (let d = takeWhile is_digit r3
                     in if d = [] then None
                        else Some (a @ ''.'' @ b @ ''.'' @ c @ ''.'' @ d)))))"

fun str_extract :: "string \<Rightarrow> string option" where
  \<comment> \<open>the first match of the pattern, searched from the left\<close>
  "str_extract [] = None"
| "str_extract (c # cs) =
     (case match_quad (c # cs) of Some a \<Rightarrow> Some a | None \<Rightarrow> str_extract cs)"

fun is_str :: "cell \<Rightarrow> bool" where
  "is_str (Str s) = True"
| "is_str _ = False"

definition ip_cell :: "cell \<Rightarrow> cell" where
  \<comment> \<open>\<^verbatim>\<open>.str.extract(...).fillna("127.0.0.1")\<close> on one cell\<close>
  "ip_cell c =
     (case c of
        Str s \<Rightarrow> (case str_extract s of Some a \<Rightarrow> Str a | None \<Rightarrow> Str ''127.0.0.1'')
      | _ \<Rightarrow> Str ''127.0.0.1'')"

definition insert_df :: "frame \<Rightarrow> string \<Rightarrow> unit io" where
  \<comment> \<open>\<^verbatim>\<open>insert(df, table)\<close>. The \<^verbatim>\<open>.str\<close> accessor raises AttributeError on a column
      that holds no string.\<close>
  "insert_df df table w =
     (if \<not> empty_df df then
        (let now = clock w (reads w);
             w1 = w\<lparr>reads := Suc (reads w)\<rparr>;
             df1 = setcol_const df ''timestamp'' (Time now)
         in case (if ''instance'' \<in> set (cols df1)
                  then err_bind (getcol df1 ''instance'') (\<lambda>inst.
                         if list_ex is_str inst then Inr (setcol df1 ''ip'' (map ip_cell inst))
                         else Inl AttributeError)
                  else Inr (setcol_const df1 ''ip'' (Str ''127.0.0.1''))) of
              Inl e \<Rightarrow> (Inl e, w1)
            | Inr df2 \<Rightarrow>
                (Inr (), w1\<lparr>tables := tables w1 @ map (Pair table) (rows df2),
                            stdout := stdout w1 @ [Inserted (length (rows df2)) table]\<rparr>))
      else (Inr (), w\<lparr>stdout := stdout w @ [NoDataToInsert table]\<rparr>))"


section \<open>The metric collectors\<close>

definition mountpoint_volumes :: "(string \<times> string) list" where
  "mountpoint_volumes =
     [(''/'', ''C''), (''/run'', ''D''), (''/run/user/1000'', ''E''),
      (''/run/lock'', ''F''), (''/run/snapd/ns'', ''G'')]"

definition device_volumes :: "(string \<times> string) list" where
  "device_volumes = [(''sda'', ''C''), (''sdb'', ''D''), (''sdc'', ''E'')]"

definition remap :: "(string \<times> string) list \<Rightarrow> cell \<Rightarrow> cell" where
  \<comment> \<open>\<^verbatim>\<open>series.map(table).fillna(series)\<close> on one cell: an identifier the table lacks
      passes through\<close>
  "remap table c =
     (case c of
        Str s \<Rightarrow> (case map_of table s of Some v \<Rightarrow> Str v | None \<Rightarrow> c)
      | _ \<Rightarrow> c)"

definition default_instance :: "frame \<Rightarrow> frame" where
  \<comment> \<open>\<^verbatim>\<open>if "instance" not in df.columns: df["instance"] = "localhost:9100"\<close>\<close>
  "default_instance df =
     (if ''instance'' \<notin> set (cols df) then setcol_const df ''instance'' (Str ''localhost:9100'')
      else df)"

definition store_cpu :: "string \<Rightarrow> string \<Rightarrow> unit io" where
  "store_cpu text1 text2 =
     try_pure (parse_metric (Labelled ''node_cpu_seconds_total'') text1 ''value'') (\<lambda>df1.
     try_pure (parse_metric (Labelled ''node_cpu_seconds_total'') text2 ''value'') (\<lambda>df2.
       if \<not> empty_df df1 \<and> \<not> empty_df df2 then
         try_pure (calculate_rate (default_instance df1) (default_instance df2)
                     [''instance'', ''cpu'', ''mode''] ''value'') (\<lambda>df_rate.
         try_pure (rename [(''cpu'', ''core''), (''mode'', ''state''),
                           (''value_rate'', ''rate_per_sec'')] df_rate) (\<lambda>df_rate.
         try_pure (select df_rate [''core'', ''state'', ''rate_per_sec'']) (\<lambda>sel.
           insert_df sel ''cpu_cstate_rates'')))
       else emit NoCpuData))"

definition store_memory :: "string \<Rightarrow> unit io" where
  "store_memory text =
     try_pure (parse_metric (OptLabelled ''node_memory_MemAvailable_bytes'') text ''bytes'') (\<lambda>df.
       if \<not> empty_df df then
         try_pure (select (setcol_const df ''metric'' (Str ''MemAvailable''))
                     [''metric'', ''bytes'']) (\<lambda>sel.
           insert_df sel ''ram_stats'')
       else return_unit)"

definition store_disk_free :: "string \<Rightarrow> unit io" where
  "store_disk_free text =
     try_pure (parse_metric (Labelled ''node_filesystem_free_bytes'') text ''bytes'') (\<lambda>df.
     try_pure (if ''mountpoint'' \<in> set (cols df) then rename [(''mountpoint'', ''volume'')] df
               else Inr df) (\<lambda>df.
     try_pure (getcol df ''volume'') (\<lambda>vol.
     try_pure (select (setcol df ''volume'' (map (remap mountpoint_volumes) vol))
                 [''volume'', ''bytes'']) (\<lambda>sel.
       insert_df sel ''disk_free_space''))))"

definition store_bandwidth_mode :: "frame \<Rightarrow> frame \<Rightarrow> string \<Rightarrow> unit io" where
  \<comment> \<open>the body of the loop over receive and transmit\<close>
  "store_bandwidth_mode df_old df_new mode =
     try_pure (calculate_rate (default_instance df_old) (default_instance df_new)
                 [''instance'', ''device''] ''value'') (\<lambda>df_rate.
       let df_rate = setcol_const df_rate ''metric_name''
                       (Str (''node_network_'' @ mode @ ''_bytes_total''));
           df_rate = setcol_const df_rate ''mode'' (Str mode)
       in try_pure (getcol df_rate ''value_rate'') (\<lambda>vr.
            let df_rate = setcol df_rate ''value'' vr
            in try_pure (getcol df_rate ''value'') (\<lambda>v.
               try_pure (series_map (\<lambda>x. x * 8 / 1024 / 1024) v) (\<lambda>mbps.
                 let df_rate = setcol df_rate ''value_mbps'' mbps
                 in try_pure (select df_rate [''metric_name'', ''mode'', ''value'', ''value_mbps''])
                      (\<lambda>sel. insert_df sel ''bandwidth'')))))"

definition store_bandwidth :: "string \<Rightarrow> string \<Rightarrow> unit io" where
  "store_bandwidth text1 text2 =
     try_pure (parse_metric (Labelled ''node_network_receive_bytes_total'') text1 ''value'') (\<lambda>rx1.
     try_pure (parse_metric (Labelled ''node_network_receive_bytes_total'') text2 ''value'') (\<lambda>rx2.
     try_pure (parse_metric (Labelled ''node_network_transmit_bytes_total'') text1 ''value'') (\<lambda>tx1.
     try_pure (parse_metric (Labelled ''node_network_transmit_bytes_total'') text2 ''value'') (\<lambda>tx2.
       and_then (store_bandwidth_mode rx1 rx2 ''receive'')
                (store_bandwidth_mode tx1 tx2 ''transmit'')))))"

definition store_disk_iops_throughput :: "string \<Rightarrow> string \<Rightarrow> unit io" where
  "store_disk_iops_throughput text1 text2 =
     try_pure (parse_metric (Labelled ''node_disk_reads_completed_total'') text1 ''reads'') (\<lambda>r1.
     try_pure (parse_metric (Labelled ''node_disk_reads_completed_total'') text2 ''reads'') (\<lambda>r2.
     try_pure (parse_metric (Labelled ''node_disk_writes_completed_total'') text1 ''writes'') (\<lambda>w1.
     try_pure (parse_metric (Labelled ''node_disk_writes_completed_total'') text2 ''writes'') (\<lambda>w2.
     try_pure (parse_metric (Labelled ''node_disk_read_bytes_total'') text1 ''rbytes'') (\<lambda>rb1.
     try_pure (parse_metric (Labelled ''node_disk_read_bytes_total'') text2 ''rbytes'') (\<lambda>rb2.
     try_pure (parse_metric (Labelled ''node_disk_written_bytes_total'') text1 ''wbytes'') (\<lambda>wb1.
     try_pure (parse_metric (Labelled ''node_disk_written_bytes_total'') text2 ''wbytes'') (\<lambda>wb2.
       and_then
         (if \<not> empty_df r1 \<and> \<not> empty_df r2 \<and> \<not> empty_df w1 \<and> \<not> empty_df w2 then
            try_pure (calculate_rate r1 r2 [''device''] ''reads'') (\<lambda>r.
            try_pure (calculate_rate w1 w2 [''device''] ''writes'') (\<lambda>w.
            try_pure (merge r w [''device''] (''_x'', ''_y'')) (\<lambda>df.
            try_pure (rename [(''reads_rate'', ''read_iops''), (''writes_rate'', ''write_iops''),
                              (''device'', ''volume'')] df) (\<lambda>df.
            try_pure (getcol df ''volume'') (\<lambda>vol.
            try_pure (select (setcol df ''volume'' (map (remap device_volumes) vol))
                        [''volume'', ''read_iops'', ''write_iops'']) (\<lambda>sel.
              insert_df sel ''disk_iops''))))))
          else return_unit)
         (if \<not> empty_df rb1 \<and> \<not> empty_df rb2 \<and> \<not> empty_df wb1 \<and> \<not> empty_df wb2 then
            try_pure (calculate_rate rb1 rb2 [''device''] ''rbytes'') (\<lambda>r.
            try_pure (calculate_rate wb1 wb2 [''device''] ''wbytes'') (\<lambda>w.
            try_pure (merge r w [''device''] (''_x'', ''_y'')) (\<lambda>df.
            try_pure (rename [(''rbytes_rate'', ''read_bytes_per_sec''),
                              (''wbytes_rate'', ''write_bytes_per_sec''),
                              (''device'', ''volume'')] df) (\<lambda>df.
            try_pure (getcol df ''volume'') (\<lambda>vol.
            try_pure (select (setcol df ''volume'' (map (remap device_volumes) vol))
                        [''volume'', ''read_bytes_per_sec'', ''write_bytes_per_sec'']) (\<lambda>sel.
              insert_df sel ''disk_throughput''))))))
          else return_unit)))))))))"


section \<open>The collection cycle\<close>

text \<open>
  \<^verbatim>\<open>main\<close> of \<^verbatim>\<open>write_into_db.py\<close>. The two calls of \<^verbatim>\<open>fetch_raw_metrics\<close> reach
  the network; their outcomes (the body, or the error of \<^verbatim>\<open>raise_for_status\<close>) are
  the parameters \<open>fetch1\<close> and \<open>fetch2\<close>.
\<close>

definition sleep_seconds :: real where
  \<comment> \<open>\<^verbatim>\<open>time.sleep(10)\<close> between the two fetches\<close>
  "sleep_seconds = 10"

definition main :: "py_error + string \<Rightarrow> py_error + string \<Rightarrow> unit io" where
  "main fetch1 fetch2 =
     and_then (emit FetchingFirst) (
     try_pure fetch1 (\<lambda>text1.
     and_then (time_sleep sleep_seconds) (
     and_then (emit FetchingSecond) (
     try_pure fetch2 (\<lambda>text2.
     and_then (store_bandwidth text1 text2) (
     and_then (store_memory text2) (
     and_then (store_disk_free text2) (
     and_then (store_cpu text1 text2) (
     and_then (store_disk_iops_throughput text1 text2) (
     emit AllStored))))))))))"



section \<open>The monthly CPU utilisation\<close>

text \<open>
  \<^verbatim>\<open>process_cpu_utilization\<close> of the monthly report (\<^verbatim>\<open>monthly.py\<close>) reads the rows of the
  table \<^verbatim>\<open>cpu_cstate_rates\<close>. A row is given here by the three columns the function uses,
  after \<^verbatim>\<open>preprocess_month\<close> has dropped the rows without a timestamp. The division of two
  floats is written out with its special values: a quotient by zero is an infinity, and
  \<^verbatim>\<open>0 / 0\<close> is NaN. The calendar month of a timestamp is a parameter.
\<close>

record cpu_row =
  timestamp :: int
  state :: string
  rate_per_sec :: real

datatype fl = Fin real | PInf | NInf | NaNf

definition fl_div :: "real \<Rightarrow> real \<Rightarrow> fl" where
  "fl_div x y =
     (if y \<noteq> 0 then Fin (x / y)
      else if x = 0 then NaNf else if 0 < x then PInf else NInf)"

fun one_minus :: "fl \<Rightarrow> fl" where
  "one_minus (Fin v) = Fin (1 - v)"
| "one_minus PInf = NInf"
| "one_minus NInf = PInf"
| "one_minus NaNf = NaNf"

fun times_100 :: "fl \<Rightarrow> fl" where
  "times_100 (Fin v) = Fin (100 * v)"
| "times_100 x = x"

fun clip :: "real \<Rightarrow> real \<Rightarrow> fl \<Rightarrow> fl" where
  \<comment> \<open>\<^verbatim>\<open>.clip(lo, hi)\<close>: NaN stays NaN\<close>
  "clip lo hi (Fin v) = Fin (min hi (max lo v))"
| "clip lo hi PInf = Fin hi"
| "clip lo hi NInf = Fin lo"
| "clip lo hi NaNf = NaNf"

definition group_sum :: "cpu_row list \<Rightarrow> (int \<times> real) list" where
  \<comment> \<open>\<^verbatim>\<open>df.groupby('timestamp')['rate_per_sec'].sum()\<close>: one sum per timestamp, in the
      order of the timestamps\<close>
  "group_sum df =
     map (\<lambda>t. (t, sum_list (map rate_per_sec (filter (\<lambda>r. timestamp r = t) df))))
       (sort (remdups (map timestamp df)))"

definition finite_values :: "fl list \<Rightarrow> real list" where
  "finite_values xs = concat (map (\<lambda>x. case x of Fin v \<Rightarrow> [v] | _ \<Rightarrow> []) xs)"

definition mean :: "fl list \<Rightarrow> fl" where
  \<comment> \<open>\<^verbatim>\<open>.mean()\<close> of a group: NaN is skipped, and a group of NaN only has the mean NaN\<close>
  "mean xs =
     (if PInf \<in> set xs \<and> NInf \<in> set xs then NaNf
      else if PInf \<in> set xs then PInf
      else if NInf \<in> set xs then NInf
      else (let vs = finite_values xs
            in if vs = [] then NaNf else Fin (sum_list vs / real (length vs))))"

definition process_cpu_utilization :: "(int \<Rightarrow> int) \<Rightarrow> cpu_row list \<Rightarrow> (int \<times> fl) list" where
  \<comment> \<open>the month and its \<^verbatim>\<open>cpu_util_percent\<close>, one row per month\<close>
  "process_cpu_utilization month_of df =
     (let total = group_sum df;
          idle = group_sum (filter (\<lambda>r. state r \<in> {''idle'', ''iowait''}) df);
          merged = map (\<lambda>(t, tot). (t, tot, case map_of idle t of None \<Rightarrow> 0 | Some i \<Rightarrow> i)) total;
          util = map (\<lambda>(t, tot, i). (month_of t, clip 0 100 (times_100 (one_minus (fl_div i tot)))))
                   merged
      in map (\<lambda>m. (m, mean (map snd (filter (\<lambda>(m', u). m' = m) util))))
           (sort (remdups (map fst util))))"


section \<open>Notions used in the statements\<close>

definition join_key :: "string list \<Rightarrow> row \<Rightarrow> cell list" where
  \<comment> \<open>the join-key values of a sample\<close>
  "join_key label_cols r = map (cell_of r) label_cols"

definition rate_cell :: "string \<Rightarrow> row \<Rightarrow> cell" where
  \<comment> \<open>the rate column of a joined row, computed in one step\<close>
  "rate_cell vc r =
     (case (cell_of r (vc @ ''_new''), cell_of r (vc @ ''_old'')) of
        (Num b, Num a) \<Rightarrow> Num ((b - a) / 60)
      | _ \<Rightarrow> NaN)"


text \<open>
  The values of the 64-bit floats the code computes with, apart from the infinities and
  NaN: an integer of fewer than 54 bits times a power of two in the range of the format.
  On two such values the sign test of the model and that of the code agree, but for one
  case: the code's difference of two floats is exact or rounded from a number whose
  sign it keeps, and its quotient by 60 rounds to zero exactly when the difference is at
  most \<open>underflow_gap\<close> in size (half the smallest positive float, times 60); a negative
  difference that small becomes \<^verbatim>\<open>-0.0\<close>, which passes \<^verbatim>\<open>>= 0\<close>.
\<close>

definition is_double :: "real \<Rightarrow> bool" where
  "is_double x \<longleftrightarrow>
     (\<exists>m e. \<bar>m\<bar> < 2 ^ 53 \<and> - 1074 \<le> e \<and> e \<le> 971 \<and> x = real_of_int m * 2 powi e)"

definition underflow_gap :: real where
  "underflow_gap = 30 / 2 ^ 1074"


text \<open>
  The five collectors of a cycle in the order \<^verbatim>\<open>main\<close> calls them, a run of a list of
  operations that stops at the first error, the state in which the first collector
  starts, and operations that leave the rows already stored as they are.
\<close>

fun run_until_error :: "unit io list \<Rightarrow> unit io" where
  "run_until_error [] = return_unit"
| "run_until_error (c # cs) = and_then c (run_until_error cs)"

definition collectors :: "string \<Rightarrow> string \<Rightarrow> unit io list" where
  "collectors text1 text2 =
     [store_bandwidth text1 text2, store_memory text2, store_disk_free text2,
      store_cpu text1 text2, store_disk_iops_throughput text1 text2]"

definition after_fetches :: "world \<Rightarrow> world" where
  "after_fetches w =
     w\<lparr>slept := slept w + sleep_seconds, stdout := stdout w @ [FetchingFirst, FetchingSecond]\<rparr>"

definition appends_only :: "'a io \<Rightarrow> bool" where
  "appends_only m \<longleftrightarrow> (\<forall>w. prefix (tables w) (tables (snd (m w))))"





section \<open>Example snapshots and scrapes\<close>

text \<open>
  Two parsed snapshots of one counter family: \<^verbatim>\<open>eth0\<close> grows from 0 to 600 and
  \<^verbatim>\<open>lo\<close> falls from 50 to 20 (a counter reset).
\<close>

definition ex_old :: frame where
  "ex_old = \<lparr>cols = [''device'', ''value''],
             rows = [[(''device'', Str ''eth0''), (''value'', Num 0)],
                     [(''device'', Str ''lo''), (''value'', Num 50)]]\<rparr>"

definition ex_new :: frame where
  "ex_new = \<lparr>cols = [''device'', ''value''],
             rows = [[(''device'', Str ''eth0''), (''value'', Num 600)],
                     [(''device'', Str ''lo''), (''value'', Num 20)]]\<rparr>"

definition ex_rate_row :: row where
  "ex_rate_row = [(''device'', Str ''eth0''), (''value_old'', Num 0),
                  (''value_new'', Num 600), (''value_rate'', Num 10)]"

text \<open>
  Two scrape bodies of one cycle. Between them the receive counter of \<^verbatim>\<open>eth0\<close> grows
  by 600, the transmit counter by 60 and the idle time of core 0 by 30. The second body
  is given with and without its filesystem line.
\<close>

definition quoted :: "string \<Rightarrow> string" where
  "quoted s = CHR 0x22 # s @ [CHR 0x22]"

definition unlines :: "string list \<Rightarrow> string" where
  "unlines ls = concat (map (\<lambda>l. l @ [CHR 0x0A]) ls)"

definition ex_text1 :: string where
  "ex_text1 = unlines
     [''node_network_receive_bytes_total{device='' @ quoted ''eth0'' @ ''} 0'',
      ''node_network_transmit_bytes_total{device='' @ quoted ''eth0'' @ ''} 40'',
      ''node_cpu_seconds_total{cpu='' @ quoted ''0'' @ '',mode='' @ quoted ''idle'' @ ''} 100'']"

definition ex_text2_nofs :: string where
  "ex_text2_nofs = unlines
     [''node_network_receive_bytes_total{device='' @ quoted ''eth0'' @ ''} 600'',
      ''node_network_transmit_bytes_total{device='' @ quoted ''eth0'' @ ''} 100'',
      ''node_cpu_seconds_total{cpu='' @ quoted ''0'' @ '',mode='' @ quoted ''idle'' @ ''} 130'',
      ''node_memory_MemAvailable_bytes 4096'']"

definition ex_text2 :: string where
  "ex_text2 = ex_text2_nofs
     @ unlines [''node_filesystem_free_bytes{mountpoint='' @ quoted ''/'' @ ''} 5000000000'']"




text \<open>
  The rows of one insert of the CPU collector after two scrapes with the same counters:
  every rate is 0.
\<close>

definition ex_idle_rows :: "cpu_row list" where
  "ex_idle_rows =
     [\<lparr>timestamp = 1700000000, state = ''idle'', rate_per_sec = 0\<rparr>,
      \<lparr>timestamp = 1700000000, state = ''user'', rate_per_sec = 0\<rparr>]"

definition world0 :: world where
  "world0 = \<lparr>tables = [], stdout = [], clock = (\<lambda>n. int n), reads = 0, slept = 0\<rparr>"

definition observe :: "(py_error + unit) \<times> world \<Rightarrow> (py_error + unit) \<times> (string \<times> row) list \<times> diag list \<times> real" where
  \<comment> \<open>the outcome of a run, the rows stored, the lines printed and the seconds slept\<close>
  "observe x = (fst x, tables (snd x), stdout (snd x), slept (snd x))"

text \<open>
  A string that the pattern of \<^verbatim>\<open>insert\<close> matches as a whole: four runs of digits
  separated by points.
\<close>

definition dotted_quad :: "string \<Rightarrow> bool" where
  "dotted_quad a \<longleftrightarrow> match_quad a = Some a"

text \<open>
  The match that \<^verbatim>\<open>str.extract\<close> returns for the pattern in a string \<open>s\<close>: the dotted quad
  that starts at the leftmost position where one starts, with its last run of digits
  taken to the end of the run.
\<close>

definition leftmost_quad :: "string \<Rightarrow> string \<Rightarrow> bool" where
  "leftmost_quad s a \<longleftrightarrow>
     (\<exists>pre post. s = pre @ a @ post \<and> dotted_quad a
         \<and> (post = [] \<or> \<not> is_digit (hd post))
         \<and> (\<forall>k<length pre. \<forall>b. prefix b (drop k s) \<longrightarrow> \<not> dotted_quad b))"

text \<open>
  Record sets for \<^verbatim>\<open>insert\<close>: one with an instance column, one with an ip column, one
  whose instance column holds numbers only, and one whose instance has groups of digits
  that are no octets.
\<close>

definition ex_instance_frame :: frame where
  "ex_instance_frame =
     \<lparr>cols = [''instance'', ''bytes''],
      rows = [[(''instance'', Str ''10.1.2.3:9100''), (''bytes'', Num 5)],
              [(''instance'', Str ''localhost:9100''), (''bytes'', Num 7)]]\<rparr>"

definition ex_ip_frame :: frame where
  "ex_ip_frame = \<lparr>cols = [''ip'', ''bytes''],
                  rows = [[(''ip'', Str ''10.0.0.1''), (''bytes'', Num 5)]]\<rparr>"

definition ex_number_frame :: frame where
  "ex_number_frame = \<lparr>cols = [''instance'', ''bytes''],
                      rows = [[(''instance'', Num 1), (''bytes'', Num 5)]]\<rparr>"

definition ex_octet_frame :: frame where
  "ex_octet_frame = \<lparr>cols = [''instance'', ''bytes''],
                     rows = [[(''instance'', Str ''999.300.1.2:9100''), (''bytes'', Num 5)]]\<rparr>"


section \<open>The exposition format of a sample\<close>

text \<open>
  A sample as the round trip takes it: its label pairs and the literal of its value.
  The conditions under which the parser reads a serialized sample back: label names are
  words other than the column of the value, label values hold no double quote, no
  closing brace and no line boundary, and the value is a literal over \<^verbatim>\<open>[0-9.e+-]\<close> that
  \<^verbatim>\<open>float\<close> accepts.
\<close>

type_synonym sample = "(string \<times> string) list \<times> string"

definition label_pair :: "string \<times> string \<Rightarrow> string" where
  "label_pair kv = fst kv @ ''='' @ quoted (snd kv)"

fun join_commas :: "string list \<Rightarrow> string" where
  "join_commas [] = []"
| "join_commas [x] = x"
| "join_commas (x # y # ys) = x @ '','' @ join_commas (y # ys)"

definition serialize_sample :: "string \<Rightarrow> sample \<Rightarrow> string" where
  \<comment> \<open>Modelled from the spec: the repository has no serializer. One line of the
      exposition format, \<^verbatim>\<open>name{k="v",...} value\<close>, the value given by its literal.\<close>
  "serialize_sample name s =
     name @ ''{'' @ join_commas (map label_pair (fst s)) @ ''} '' @ snd s"

definition serialize :: "string \<Rightarrow> sample list \<Rightarrow> string" where
  \<comment> \<open>Modelled from the spec: the repository has no serializer. One line per sample.\<close>
  "serialize name samples = unlines (map (serialize_sample name) samples)"






text \<open>
  Samples of the disk-free family: two that are read back, and five that are not (a
  closing brace, an escaped quote and a form feed in a label value, a label named like
  the column of the value, and the value NaN).
\<close>

definition ex_family :: string where
  "ex_family = ''node_filesystem_free_bytes''"

definition ex_samples :: "sample list" where
  "ex_samples =
     [([(''mountpoint'', ''/''), (''device'', ''sda1'')], ''5e9''),
      ([(''mountpoint'', ''/run/user/1000'')], ''12.5'')]"







section \<open>Properties of the rate calculator\<close>

lemma calculate_rate_InrE:
  assumes "calculate_rate df1 df2 label_cols value_col = Inr out"
  obtains df new old delta rate where
    "merge df1 df2 label_cols (''_old'', ''_new'') = Inr df"
    "getcol df (value_col @ ''_new'') = Inr new"
    "getcol df (value_col @ ''_old'') = Inr old"
    "series_sub new old = Inr delta"
    "series_map (\<lambda>x. x / 60) delta = Inr rate"
    "out = (setcol df (value_col @ ''_rate'') rate)
             \<lparr>rows := filter (\<lambda>r. cell_ge0 (cell_of r (value_col @ ''_rate'')))
                         (rows (setcol df (value_col @ ''_rate'') rate))\<rparr>"
  using assms unfolding calculate_rate_def err_bind_def Let_def
  by (auto split: sum.splits)

lemma ex_rate:
  "calculate_rate ex_old ex_new [''device''] ''value'' =
     Inr \<lparr>cols = [''device'', ''value_old'', ''value_new'', ''value_rate''],
          rows = [ex_rate_row]\<rparr>"
  by (simp add: calculate_rate_def err_bind_def merge_def getcol_def setcol_def series_sub_def
      series_map_def cell_of_def ex_old_def ex_new_def ex_rate_row_def)

text \<open>
  Claim C5. Every row the rate calculator emits has a rate that is a number and is at
  least 0: a joined pair whose rate is negative (or missing) is filtered out.
\<close>

theorem calculate_rate_nonneg:
  assumes "calculate_rate df1 df2 label_cols value_col = Inr out"
    and "r \<in> set (rows out)"
  shows "\<exists>x. cell_of r (value_col @ ''_rate'') = Num x \<and> 0 \<le> x"
proof -
  from assms(1) obtain df rate where
    out: "out = (setcol df (value_col @ ''_rate'') rate)
             \<lparr>rows := filter (\<lambda>r. cell_ge0 (cell_of r (value_col @ ''_rate'')))
                         (rows (setcol df (value_col @ ''_rate'') rate))\<rparr>"
    by (rule calculate_rate_InrE)
  from assms(2) have "cell_ge0 (cell_of r (value_col @ ''_rate''))"
    unfolding out by simp
  then show ?thesis
    by (cases "cell_of r (value_col @ ''_rate'')") simp_all
qed

theorem calculate_rate_nonneg_witness:
  "rows (projr (calculate_rate ex_old ex_new [''device''] ''value'')) = [ex_rate_row]
   \<and> (\<exists>x. cell_of ex_rate_row (''value'' @ ''_rate'') = Num x \<and> 0 \<le> x)"
proof -
  have "ex_rate_row \<in> set (rows \<lparr>cols = [''device'', ''value_old'', ''value_new'', ''value_rate''],
          rows = [ex_rate_row]\<rparr>)"
    by simp
  from calculate_rate_nonneg [OF ex_rate this] show ?thesis
    by (simp add: ex_rate)
qed

lemma cell_of_update:
  "cell_of (AList.update k v r) k' = (if k' = k then v else cell_of r k')"
  by (simp add: cell_of_def update_conv')

lemma rate_series_eq:
  assumes "series_sub (map (\<lambda>r. cell_of r n) rs) (map (\<lambda>r. cell_of r o') rs) = Inr delta"
    and "series_map f delta = Inr rate"
  shows "rate = map (\<lambda>r. case (cell_of r n, cell_of r o') of
                            (Num b, Num a) \<Rightarrow> Num (f (b - a)) | _ \<Rightarrow> NaN) rs"
  using assms
proof (induction rs arbitrary: delta rate)
  case Nil
  then show ?case by (simp add: series_sub_def series_map_def)
next
  case (Cons r rs)
  from Cons.prems(1) obtain d ds where
    d: "cell_sub (cell_of r n) (cell_of r o') = Inr d"
    and ds: "series_sub (map (\<lambda>r. cell_of r n) rs) (map (\<lambda>r. cell_of r o') rs) = Inr ds"
    and delta: "delta = d # ds"
    by (auto simp: series_sub_def split: sum.splits)
  from Cons.prems(2) delta obtain v vs where
    v: "cell_map f d = Inr v" and vs: "series_map f ds = Inr vs" and rate: "rate = v # vs"
    by (auto simp: series_map_def split: sum.splits)
  have "v = (case (cell_of r n, cell_of r o') of (Num b, Num a) \<Rightarrow> Num (f (b - a)) | _ \<Rightarrow> NaN)"
    using d v by (cases "cell_of r n"; cases "cell_of r o'") auto
  with Cons.IH [OF ds vs] rate show ?case by simp
qed

lemma zip_map_self: "map (\<lambda>(r, v). g r v) (zip rs (map h rs)) = map (\<lambda>r. g r (h r)) rs"
  by (induction rs) auto

lemma calculate_rate_rows:
  assumes "calculate_rate df1 df2 label_cols value_col = Inr out"
  obtains df where
    "merge df1 df2 label_cols (''_old'', ''_new'') = Inr df"
    "value_col @ ''_new'' \<in> set (cols df)"
    "value_col @ ''_old'' \<in> set (cols df)"
    "rows out = map (\<lambda>r. AList.update (value_col @ ''_rate'') (rate_cell value_col r) r)
                   (filter (\<lambda>r. cell_ge0 (rate_cell value_col r)) (rows df))"
proof -
  from assms obtain df new old delta rate where
    m: "merge df1 df2 label_cols (''_old'', ''_new'') = Inr df"
    and n: "getcol df (value_col @ ''_new'') = Inr new"
    and o: "getcol df (value_col @ ''_old'') = Inr old"
    and d: "series_sub new old = Inr delta"
    and r: "series_map (\<lambda>x. x / 60) delta = Inr rate"
    and out: "out = (setcol df (value_col @ ''_rate'') rate)
             \<lparr>rows := filter (\<lambda>r. cell_ge0 (cell_of r (value_col @ ''_rate'')))
                         (rows (setcol df (value_col @ ''_rate'') rate))\<rparr>"
    by (rule calculate_rate_InrE)
  from n have n1: "value_col @ ''_new'' \<in> set (cols df)"
    and new: "new = map (\<lambda>r. cell_of r (value_col @ ''_new'')) (rows df)"
    by (auto simp: getcol_def split: if_splits)
  from o have o1: "value_col @ ''_old'' \<in> set (cols df)"
    and old: "old = map (\<lambda>r. cell_of r (value_col @ ''_old'')) (rows df)"
    by (auto simp: getcol_def split: if_splits)
  have rate: "rate = map (rate_cell value_col) (rows df)"
    using rate_series_eq [OF d [unfolded new old] r] by (simp add: rate_cell_def)
  have "rows out = filter (\<lambda>r. cell_ge0 (cell_of r (value_col @ ''_rate'')))
          (map (\<lambda>r. AList.update (value_col @ ''_rate'') (rate_cell value_col r) r) (rows df))"
    unfolding out rate by (simp add: setcol_def zip_map_self)
  also have "\<dots> = map (\<lambda>r. AList.update (value_col @ ''_rate'') (rate_cell value_col r) r)
                   (filter (\<lambda>r. cell_ge0 (rate_cell value_col r)) (rows df))"
    by (simp add: filter_map o_def cell_of_update)
  finally show ?thesis using that m n1 o1 by blast
qed

lemma rate_cell_ge0:
  "cell_ge0 (rate_cell vc r) \<Longrightarrow>
   \<exists>a b. cell_of r (vc @ ''_old'') = Num a \<and> cell_of r (vc @ ''_new'') = Num b \<and> a \<le> b
        \<and> rate_cell vc r = Num ((b - a) / 60)"
  by (cases "cell_of r (vc @ ''_new'')"; cases "cell_of r (vc @ ''_old'')")
     (auto simp: rate_cell_def)

text \<open>
  Claim C1 (a defect of the code). The cycle sleeps \<open>sleep_seconds = 10\<close> seconds between
  its two fetches and measures nothing, and the calculator divides every delta by the
  constant 60. A counter that grows from 0 to 600 between the two fetches is emitted
  with rate 10, not with 600 divided by the 10 seconds that elapsed. The outputs are
  named per second (\<^verbatim>\<open>rate_per_sec\<close>, \<^verbatim>\<open>read_bytes_per_sec\<close>).
\<close>

theorem calculate_rate_elapsed_divergence:
  "slept (snd (time_sleep sleep_seconds world0)) - slept world0 = 10
   \<and> rows (projr (calculate_rate ex_old ex_new [''device''] ''value'')) = [ex_rate_row]
   \<and> cell_of ex_rate_row ''value_old'' = Num 0
   \<and> cell_of ex_rate_row ''value_new'' = Num 600
   \<and> cell_of ex_rate_row ''value_rate'' = Num 10
   \<and> cell_of ex_rate_row ''value_rate'' \<noteq> Num ((600 - 0) / sleep_seconds)"
  unfolding ex_rate
  by (simp add: ex_rate_row_def cell_of_def sleep_seconds_def time_sleep_def world0_def)

section \<open>Properties of the join\<close>

lemma map_of_map_key:
  "distinct (map f xs) \<Longrightarrow> c \<in> set xs \<Longrightarrow> map_of (map (\<lambda>c. (f c, g c)) xs) (f c) = Some (g c)"
  by (induction xs) (auto simp: image_iff)

lemma map_of_map_none:
  "k \<notin> f ` set xs \<Longrightarrow> map_of (map (\<lambda>c. (f c, g c)) xs) k = None"
  by (induction xs) auto

lemma cell_of_append_left:
  "map_of a k = Some v \<Longrightarrow> cell_of (a @ b) k = v"
  by (simp add: cell_of_def map_add_def)

lemma cell_of_append_right:
  "map_of a k = None \<Longrightarrow> cell_of (a @ b) k = cell_of b k"
  by (simp add: cell_of_def map_add_def)

lemma cell_of_Some: "map_of b k = Some v \<Longrightarrow> cell_of b k = v"
  by (simp add: cell_of_def)

lemma merge_InrE:
  assumes "merge left right on sfx = Inr df"
  obtains J where
    "rows df = concat (map (\<lambda>l. map (J l)
                 (filter (\<lambda>r. join_key on r = join_key on l) (rows right))) (rows left))"
    "\<And>l r k. k \<in> set on \<Longrightarrow> cell_of (J l r) k = cell_of l k"
    "\<And>l r c. c \<in> set (cols left) \<Longrightarrow> c \<in> set (cols right) \<Longrightarrow> c \<notin> set on \<Longrightarrow>
        cell_of (J l r) (c @ fst sfx) = cell_of l c \<and> cell_of (J l r) (c @ snd sfx) = cell_of r c"
proof -
  define overlap where "overlap = (\<lambda>c. c \<notin> set on \<and> c \<in> set (cols left) \<and> c \<in> set (cols right))"
  define lname where "lname = (\<lambda>c. if overlap c then c @ fst sfx else c)"
  define rname where "rname = (\<lambda>c. if overlap c then c @ snd sfx else c)"
  define rcols where "rcols = filter (\<lambda>c. c \<notin> set on) (cols right)"
  define J where "J = (\<lambda>l r. map (\<lambda>c. (lname c, cell_of l c)) (cols left)
                              @ map (\<lambda>c. (rname c, cell_of r c)) rcols)"
  from assms have keys: "set on \<subseteq> set (cols left)" "set on \<subseteq> set (cols right)"
    by (auto simp: merge_def Let_def filter_empty_conv split: if_splits list.splits)
  from assms have dist: "distinct (map lname (cols left) @ map rname rcols)"
    and rows: "rows df = concat (map (\<lambda>l. map (J l)
                 (filter (\<lambda>r. join_key on r = join_key on l) (rows right))) (rows left))"
    unfolding merge_def overlap_def lname_def rname_def rcols_def J_def join_key_def Let_def
    by (auto split: if_splits list.splits)
  have left: "cell_of (J l r) (lname c) = cell_of l c" if "c \<in> set (cols left)" for l r c
    unfolding J_def using dist that
    by (intro cell_of_append_left map_of_map_key) auto
  have right: "cell_of (J l r) (rname c) = cell_of r c" if "c \<in> set rcols" for l r c
  proof -
    have "rname c \<notin> lname ` set (cols left)" using dist that by auto
    then have "map_of (map (\<lambda>c. (lname c, cell_of l c)) (cols left)) (rname c) = None"
      by (rule map_of_map_none)
    then have "cell_of (J l r) (rname c)
                 = cell_of (map (\<lambda>c. (rname c, cell_of r c)) rcols) (rname c)"
      unfolding J_def by (rule cell_of_append_right)
    also have "map_of (map (\<lambda>c. (rname c, cell_of r c)) rcols) (rname c) = Some (cell_of r c)"
      using dist that by (intro map_of_map_key) auto
    then have "cell_of (map (\<lambda>c. (rname c, cell_of r c)) rcols) (rname c) = cell_of r c"
      by (rule cell_of_Some)
    finally show ?thesis .
  qed
  have k: "cell_of (J l r) k = cell_of l k" if "k \<in> set on" for l r k
    using left [of k l r] that keys by (auto simp: lname_def overlap_def)
  have o: "cell_of (J l r) (c @ fst sfx) = cell_of l c \<and> cell_of (J l r) (c @ snd sfx) = cell_of r c"
    if "c \<in> set (cols left)" "c \<in> set (cols right)" "c \<notin> set on" for l r c
    using left [of c l r] right [of c l r] that by (simp add: lname_def rname_def overlap_def rcols_def)
  from rows k o show ?thesis by (rule that)
qed

lemma filter_unique:
  "distinct (map f xs) \<Longrightarrow> x \<in> set xs \<Longrightarrow> filter (\<lambda>y. f y = f x) xs = [x]"
proof (induction xs)
  case Nil
  then show ?case by simp
next
  case (Cons a xs)
  show ?case
  proof (cases "a = x")
    case True
    with Cons.prems have "filter (\<lambda>y. f y = f x) xs = []"
      by (auto simp: filter_empty_conv image_iff)
    with True show ?thesis by simp
  next
    case False
    with Cons show ?thesis by (auto simp: image_iff)
  qed
qed

lemma filter_absent:
  "k \<notin> f ` set xs \<Longrightarrow> filter (\<lambda>y. f y = k) xs = []"
  by (auto simp: filter_empty_conv)

lemma filter_concat_groups:
  assumes "\<And>l m. l \<in> set ls \<Longrightarrow> m \<in> set (F l) \<Longrightarrow> g m = f l"
  shows "filter (\<lambda>m. g m = k) (concat (map F ls)) = concat (map F (filter (\<lambda>l. f l = k) ls))"
  using assms
proof (induction ls)
  case Nil
  then show ?case by simp
next
  case (Cons l ls)
  have "filter (\<lambda>m. g m = k) (F l) = (if f l = k then F l else [])"
    using Cons.prems [of l] by (auto simp: filter_empty_conv filter_id_conv)
  with Cons show ?case by simp
qed

text \<open>
  The join in the model's exact arithmetic: a pair with equal join-key values yields one
  output row when the older value is at most the newer one, and none otherwise.
\<close>

lemma calculate_rate_join_exact:
  assumes ok: "calculate_rate df1 df2 label_cols value_col = Inr out"
    and vc: "value_col \<in> set (cols df1)" "value_col \<in> set (cols df2)"
            "value_col \<notin> set label_cols"
    and rk: "value_col @ ''_rate'' \<notin> set label_cols"
    and u1: "distinct (map (join_key label_cols) (rows df1))"
    and u2: "distinct (map (join_key label_cols) (rows df2))"
  shows "(\<forall>l\<in>set (rows df1). \<forall>r\<in>set (rows df2). \<forall>a b.
            join_key label_cols l = join_key label_cols r \<longrightarrow>
            cell_of l value_col = Num a \<longrightarrow> cell_of r value_col = Num b \<longrightarrow>
            length (filter (\<lambda>p. join_key label_cols p = join_key label_cols l) (rows out))
              = (if a \<le> b then 1 else 0)
            \<and> (\<forall>p\<in>set (rows out). join_key label_cols p = join_key label_cols l \<longrightarrow>
                  cell_of p (value_col @ ''_old'') = Num a
                  \<and> cell_of p (value_col @ ''_new'') = Num b
                  \<and> cell_of p (value_col @ ''_rate'') = Num ((b - a) / 60)))
       \<and> (\<forall>p\<in>set (rows out).
            join_key label_cols p \<in> join_key label_cols ` set (rows df1)
            \<and> join_key label_cols p \<in> join_key label_cols ` set (rows df2))"
proof -
  define U where "U = (\<lambda>r. AList.update (value_col @ ''_rate'') (rate_cell value_col r) r)"
  define G where "G = (\<lambda>r. cell_ge0 (rate_cell value_col r))"
  define key where "key = join_key label_cols"
  from ok obtain df :: frame where
    m: "merge df1 df2 label_cols (''_old'', ''_new'') = Inr df"
    and out: "rows out = map U (filter G (rows df))"
    unfolding U_def G_def by (rule calculate_rate_rows)
  from m obtain J where
    rows: "rows df = concat (map (\<lambda>l. map (J l)
                 (filter (\<lambda>r. key r = key l) (rows df2))) (rows df1))"
    and Jk: "\<And>l r k. k \<in> set label_cols \<Longrightarrow> cell_of (J l r) k = cell_of l k"
    and Jv: "\<And>l r c. c \<in> set (cols df1) \<Longrightarrow> c \<in> set (cols df2) \<Longrightarrow> c \<notin> set label_cols \<Longrightarrow>
        cell_of (J l r) (c @ ''_old'') = cell_of l c \<and> cell_of (J l r) (c @ ''_new'') = cell_of r c"
    unfolding key_def by (rule merge_InrE) auto
  have key_U: "key (U x) = key x" for x
    using rk unfolding key_def join_key_def U_def by (auto simp: cell_of_update)
  have key_J: "key (J l r) = key l" for l r
    unfolding key_def join_key_def using Jk by simp
  have old: "cell_of (J l r) (value_col @ ''_old'') = cell_of l value_col"
    and new: "cell_of (J l r) (value_col @ ''_new'') = cell_of r value_col" for l r
    using Jv [OF vc] by simp_all
  have group: "filter (\<lambda>x. key x = k) (rows df)
        = concat (map (\<lambda>l. map (J l) (filter (\<lambda>r. key r = key l) (rows df2)))
                    (filter (\<lambda>l. key l = k) (rows df1)))" for k
    unfolding rows by (rule filter_concat_groups) (auto simp: key_J)
  have sel: "filter (\<lambda>p. key p = k) (rows out) = map U (filter G (filter (\<lambda>x. key x = k) (rows df)))"
    for k
    unfolding out by (simp add: filter_map o_def key_U conj_commute)
  have a: "length (filter (\<lambda>p. key p = key l) (rows out)) = (if a \<le> b then 1 else 0)
           \<and> (\<forall>p\<in>set (rows out). key p = key l \<longrightarrow>
                  cell_of p (value_col @ ''_old'') = Num a
                  \<and> cell_of p (value_col @ ''_new'') = Num b
                  \<and> cell_of p (value_col @ ''_rate'') = Num ((b - a) / 60))"
    if l: "l \<in> set (rows df1)" and r: "r \<in> set (rows df2)" and eq: "key l = key r"
      and la: "cell_of l value_col = Num a" and rb: "cell_of r value_col = Num b"
    for l r a b
  proof -
    have "filter (\<lambda>l'. key l' = key l) (rows df1) = [l]"
      using u1 l unfolding key_def by (rule filter_unique)
    moreover have "filter (\<lambda>r'. key r' = key l) (rows df2) = [r]"
      unfolding eq using u2 r unfolding key_def by (rule filter_unique)
    ultimately have one: "filter (\<lambda>x. key x = key l) (rows df) = [J l r]"
      unfolding group by simp
    have rc: "rate_cell value_col (J l r) = Num ((b - a) / 60)"
      by (simp add: rate_cell_def old new la rb)
    have G: "G (J l r) \<longleftrightarrow> a \<le> b"
      unfolding G_def rc by simp
    have pairs: "filter (\<lambda>p. key p = key l) (rows out) = (if a \<le> b then [U (J l r)] else [])"
      unfolding sel one using G by simp
    have cells: "cell_of (U (J l r)) (value_col @ ''_old'') = Num a
                  \<and> cell_of (U (J l r)) (value_col @ ''_new'') = Num b
                  \<and> cell_of (U (J l r)) (value_col @ ''_rate'') = Num ((b - a) / 60)"
      unfolding U_def by (simp add: cell_of_update old new la rb rc)
    have "p = U (J l r)" if "p \<in> set (rows out)" "key p = key l" for p
    proof -
      from that have "p \<in> set (filter (\<lambda>p. key p = key l) (rows out))" by simp
      then show ?thesis unfolding pairs by (simp split: if_splits)
    qed
    with pairs cells show ?thesis by auto
  qed
  have b: "key p \<in> key ` set (rows df1) \<and> key p \<in> key ` set (rows df2)"
    if "p \<in> set (rows out)" for p
  proof -
    from that obtain x where x: "x \<in> set (rows df)" and p: "p = U x"
      unfolding out by auto
    from x obtain l r where "l \<in> set (rows df1)" "r \<in> set (rows df2)" "key r = key l" "x = J l r"
      unfolding rows by auto
    then show ?thesis unfolding p key_U by (metis key_J imageI)
  qed
  from a b show ?thesis unfolding key_def by blast
qed

text \<open>
  Claim C4, as amended. Let the rate calculator return a table, let the value be a
  column of both snapshots that is no join-key label (nor is the rate column), and let
  the join-key values be unique within each snapshot. A pair of samples with the same
  join-key values and finite float values \<open>a\<close> (older) and \<open>b\<close> (newer) yields exactly one
  output row when \<open>a \<le> b\<close> and no output row when \<open>a\<close> exceeds \<open>b\<close> by more than
  \<open>underflow_gap\<close>; an output row of the pair holds \<open>a\<close> and \<open>b\<close>. Every output row carries
  join-key values that occur in both snapshots, so a sample present in one snapshot only
  is referenced by no output row. (A fall of at most \<open>underflow_gap\<close> is left open: the
  code's division by 60 underflows to \<^verbatim>\<open>-0.0\<close> there, which passes \<^verbatim>\<open>>= 0\<close>.)
\<close>

theorem calculate_rate_inner_join:
  assumes ok: "calculate_rate df1 df2 label_cols value_col = Inr out"
    and vc: "value_col \<in> set (cols df1)" "value_col \<in> set (cols df2)"
            "value_col \<notin> set label_cols"
    and rk: "value_col @ ''_rate'' \<notin> set label_cols"
    and u1: "distinct (map (join_key label_cols) (rows df1))"
    and u2: "distinct (map (join_key label_cols) (rows df2))"
  shows "(\<forall>l\<in>set (rows df1). \<forall>r\<in>set (rows df2). \<forall>a b.
            join_key label_cols l = join_key label_cols r \<longrightarrow>
            cell_of l value_col = Num a \<longrightarrow> cell_of r value_col = Num b \<longrightarrow>
            is_double a \<longrightarrow> is_double b \<longrightarrow>
            (a \<le> b \<longrightarrow>
               length (filter (\<lambda>p. join_key label_cols p = join_key label_cols l) (rows out)) = 1)
            \<and> (underflow_gap < a - b \<longrightarrow>
               length (filter (\<lambda>p. join_key label_cols p = join_key label_cols l) (rows out)) = 0)
            \<and> (\<forall>p\<in>set (rows out). join_key label_cols p = join_key label_cols l \<longrightarrow>
                  cell_of p (value_col @ ''_old'') = Num a
                  \<and> cell_of p (value_col @ ''_new'') = Num b))
       \<and> (\<forall>p\<in>set (rows out).
            join_key label_cols p \<in> join_key label_cols ` set (rows df1)
            \<and> join_key label_cols p \<in> join_key label_cols ` set (rows df2))"
proof -
  have gap: "0 < underflow_gap" by (simp add: underflow_gap_def)
  note exact = calculate_rate_join_exact [OF assms]
  show ?thesis
  proof (intro conjI ballI allI impI)
    fix l r a b
    assume h: "l \<in> set (rows df1)" "r \<in> set (rows df2)"
      "join_key label_cols l = join_key label_cols r"
      "cell_of l value_col = Num a" "cell_of r value_col = Num b"
    from exact h have n: "length (filter (\<lambda>p. join_key label_cols p = join_key label_cols l)
                             (rows out)) = (if a \<le> b then 1 else 0)"
      by blast
    show "length (filter (\<lambda>p. join_key label_cols p = join_key label_cols l) (rows out)) = 1"
      if "a \<le> b" using n that by simp
    show "length (filter (\<lambda>p. join_key label_cols p = join_key label_cols l) (rows out)) = 0"
      if "underflow_gap < a - b" using n that gap by simp
    show "cell_of p (value_col @ ''_old'') = Num a"
      if "p \<in> set (rows out)" "join_key label_cols p = join_key label_cols l" for p
      using exact h that by blast
    show "cell_of p (value_col @ ''_new'') = Num b"
      if "p \<in> set (rows out)" "join_key label_cols p = join_key label_cols l" for p
      using exact h that by blast
  next
    fix p assume "p \<in> set (rows out)"
    with exact show "join_key label_cols p \<in> join_key label_cols ` set (rows df1)" by blast
  next
    fix p assume "p \<in> set (rows out)"
    with exact show "join_key label_cols p \<in> join_key label_cols ` set (rows df2)" by blast
  qed
qed

theorem calculate_rate_inner_join_witness:
  "distinct (map (join_key [''device'']) (rows ex_old))
   \<and> distinct (map (join_key [''device'']) (rows ex_new))
   \<and> is_double 0 \<and> is_double 600 \<and> (0::real) \<le> 600
   \<and> is_double 50 \<and> is_double 20 \<and> underflow_gap < 50 - 20
   \<and> length (filter (\<lambda>p. join_key [''device''] p = join_key [''device''] (hd (rows ex_old)))
               (rows (projr (calculate_rate ex_old ex_new [''device''] ''value'')))) = 1
   \<and> length (filter (\<lambda>p. join_key [''device''] p = join_key [''device''] (last (rows ex_old)))
               (rows (projr (calculate_rate ex_old ex_new [''device''] ''value'')))) = 0"
proof -
  have h: "''value'' \<in> set (cols ex_old)" "''value'' \<in> set (cols ex_new)"
    "''value'' \<notin> set [''device'']" "''value'' @ ''_rate'' \<notin> set [''device'']"
    "distinct (map (join_key [''device'']) (rows ex_old))"
    "distinct (map (join_key [''device'']) (rows ex_new))"
    by (simp_all add: ex_old_def ex_new_def join_key_def cell_of_def)
  have d: "is_double (real_of_int m)" if "\<bar>m\<bar> < 2 ^ 53" for m
    unfolding is_double_def using that by (intro exI [of _ m] exI [of _ 0]) simp
  have b: "is_double 0" "is_double 600" "is_double 50" "is_double 20"
    using d [of 0] d [of 600] d [of 50] d [of 20] by simp_all
  have g: "underflow_gap < 50 - 20" by (simp add: underflow_gap_def)
  from calculate_rate_inner_join [OF ex_rate h] h(5,6) b g show ?thesis
    unfolding ex_rate
    by (simp add: ex_rate_row_def ex_old_def ex_new_def join_key_def cell_of_def)
qed

theorem calculate_rate_reset_counterexample:
  "cell_of (last (rows ex_old)) ''device'' = Str ''lo''
   \<and> cell_of (last (rows ex_new)) ''device'' = Str ''lo''
   \<and> join_key [''device''] (last (rows ex_old)) = join_key [''device''] (last (rows ex_new))
   \<and> rows (projr (calculate_rate ex_old ex_new [''device''] ''value'')) = [ex_rate_row]
   \<and> cell_of ex_rate_row ''device'' = Str ''eth0''"
  unfolding ex_rate
  by (simp add: ex_rate_row_def ex_old_def ex_new_def join_key_def cell_of_def)


section \<open>Properties of the identifier remap\<close>

text \<open>
  Claim C9. The identifier remap of the mountpoints and the one of the device names are
  idempotent: a remapped identifier is no key of its table, and an identifier the table
  lacks passes through.
\<close>

theorem remap_idempotent:
  "remap mountpoint_volumes (remap mountpoint_volumes c) = remap mountpoint_volumes c
   \<and> remap device_volumes (remap device_volumes c) = remap device_volumes c"
  by (cases c) (auto simp: remap_def mountpoint_volumes_def device_volumes_def)


section \<open>Properties of the insert operation\<close>

lemma digits_dotD:
  assumes "digits_dot s = Some (d, r)"
  shows "s = d @ CHR ''.'' # r" "d \<noteq> []" "list_all is_digit d"
proof -
  from assms have d: "d = takeWhile is_digit s" and ne: "d \<noteq> []"
    and dr: "dropWhile is_digit s = CHR ''.'' # r"
    by (auto simp: digits_dot_def Let_def split: if_splits list.splits)
  show "d \<noteq> []" by (rule ne)
  show "list_all is_digit d" unfolding d list_all_iff by (auto dest: set_takeWhileD)
  have "s = takeWhile is_digit s @ dropWhile is_digit s" by simp
  then show "s = d @ CHR ''.'' # r" unfolding d dr .
qed

lemma takeWhile_digits_stop:
  assumes "list_all is_digit d" "r = [] \<or> \<not> is_digit (hd r)"
  shows "takeWhile is_digit (d @ r) = d" "dropWhile is_digit (d @ r) = r"
  using assms by (induction d) (auto simp: list_all_iff takeWhile_eq_Nil_iff dropWhile_eq_self_iff neq_Nil_conv)

lemma not_digit_dot: "\<not> is_digit CHR ''.''"
  by (simp add: is_digit_def)

lemma digits_dotI:
  assumes "list_all is_digit d" "d \<noteq> []"
  shows "digits_dot (d @ CHR ''.'' # r) = Some (d, r)"
  using takeWhile_digits_stop [of d "CHR ''.'' # r"] assms
  by (simp add: digits_dot_def not_digit_dot)

lemma match_quadD:
  assumes "match_quad s = Some a"
  obtains d1 d2 d3 d4 rest where
    "a = d1 @ ''.'' @ d2 @ ''.'' @ d3 @ ''.'' @ d4" "s = a @ rest"
    "list_all is_digit d1" "d1 \<noteq> []" "list_all is_digit d2" "d2 \<noteq> []"
    "list_all is_digit d3" "d3 \<noteq> []" "list_all is_digit d4" "d4 \<noteq> []"
    "rest = [] \<or> \<not> is_digit (hd rest)"
proof -
  from assms obtain d1 r1 d2 r2 d3 r3 where
    1: "digits_dot s = Some (d1, r1)" and 2: "digits_dot r1 = Some (d2, r2)"
    and 3: "digits_dot r2 = Some (d3, r3)" and 4: "takeWhile is_digit r3 \<noteq> []"
    and a: "a = d1 @ ''.'' @ d2 @ ''.'' @ d3 @ ''.'' @ takeWhile is_digit r3"
    by (auto simp: match_quad_def Let_def split: option.splits if_splits)
  define d4 where "d4 = takeWhile is_digit r3"
  define rest where "rest = dropWhile is_digit r3"
  have r3: "r3 = d4 @ rest" unfolding d4_def rest_def by simp
  have d4: "list_all is_digit d4" unfolding d4_def list_all_iff by (auto dest: set_takeWhileD)
  have rest: "rest = [] \<or> \<not> is_digit (hd rest)"
    unfolding rest_def by (metis hd_dropWhile)
  have s: "s = a @ rest"
    using digits_dotD(1) [OF 1] digits_dotD(1) [OF 2] digits_dotD(1) [OF 3] r3 a
    unfolding d4_def by simp
  show ?thesis
    using that [of d1 d2 d3 d4 rest] a s digits_dotD(2,3) [OF 1] digits_dotD(2,3) [OF 2]
      digits_dotD(2,3) [OF 3] d4 4 rest unfolding d4_def by blast
qed

lemma match_quadI:
  assumes "list_all is_digit d1" "d1 \<noteq> []" "list_all is_digit d2" "d2 \<noteq> []"
    "list_all is_digit d3" "d3 \<noteq> []" "list_all is_digit d4" "d4 \<noteq> []"
  shows "\<exists>b. match_quad (d1 @ ''.'' @ d2 @ ''.'' @ d3 @ ''.'' @ d4 @ rest) = Some b"
    and "match_quad (d1 @ ''.'' @ d2 @ ''.'' @ d3 @ ''.'' @ d4)
           = Some (d1 @ ''.'' @ d2 @ ''.'' @ d3 @ ''.'' @ d4)"
proof -
  have ne: "takeWhile is_digit (d4 @ rest) \<noteq> []"
    using assms(7,8) by (cases d4) (auto simp: list_all_iff)
  show "\<exists>b. match_quad (d1 @ ''.'' @ d2 @ ''.'' @ d3 @ ''.'' @ d4 @ rest) = Some b"
    using ne by (simp add: match_quad_def digits_dotI assms Let_def)
  have tw: "takeWhile is_digit d4 = d4"
    using assms(7) by (simp add: takeWhile_eq_all_conv list_all_iff)
  show "match_quad (d1 @ ''.'' @ d2 @ ''.'' @ d3 @ ''.'' @ d4)
           = Some (d1 @ ''.'' @ d2 @ ''.'' @ d3 @ ''.'' @ d4)"
    by (simp add: match_quad_def digits_dotI assms Let_def tw)
qed

lemma match_quad_full:
  assumes "match_quad s = Some a"
  shows "prefix a s" "match_quad a = Some a"
proof -
  from assms obtain d1 d2 d3 d4 rest where
    a: "a = d1 @ ''.'' @ d2 @ ''.'' @ d3 @ ''.'' @ d4" and s: "s = a @ rest"
    and d: "list_all is_digit d1" "d1 \<noteq> []" "list_all is_digit d2" "d2 \<noteq> []"
    "list_all is_digit d3" "d3 \<noteq> []" "list_all is_digit d4" "d4 \<noteq> []"
    by (rule match_quadD)
  show "prefix a s" unfolding s by simp
  show "match_quad a = Some a" unfolding a by (rule match_quadI(2) [OF d])
qed

lemma str_extract_Some:
  "str_extract s = Some a \<Longrightarrow> sublist a s \<and> match_quad a = Some a"
proof (induction s)
  case Nil
  then show ?case by simp
next
  case (Cons c cs)
  show ?case
  proof (cases "match_quad (c # cs)")
    case None
    with Cons show ?thesis by (auto simp: sublist_Cons_right)
  next
    case (Some b)
    with Cons.prems have "b = a" by simp
    with Some match_quad_full [of "c # cs" a] show ?thesis
      by (auto intro: prefix_imp_sublist)
  qed
qed

lemma match_quad_extend:
  assumes "match_quad a = Some a"
  shows "match_quad (a @ post) \<noteq> None"
proof -
  from assms obtain d1 d2 d3 d4 rest where
    a: "a = d1 @ ''.'' @ d2 @ ''.'' @ d3 @ ''.'' @ d4"
    and d: "list_all is_digit d1" "d1 \<noteq> []" "list_all is_digit d2" "d2 \<noteq> []"
    "list_all is_digit d3" "d3 \<noteq> []" "list_all is_digit d4" "d4 \<noteq> []"
    by (rule match_quadD)
  from match_quadI(1) [OF d, of post] show ?thesis unfolding a by auto
qed

lemma str_extract_None:
  assumes "str_extract s = None" "sublist a s"
  shows "match_quad a \<noteq> Some a"
proof
  assume q: "match_quad a = Some a"
  from assms(2) obtain pre post where s: "s = pre @ a @ post" by (auto simp: sublist_def)
  have "a \<noteq> []" using q by (auto simp: match_quad_def digits_dot_def)
  have "str_extract (pre @ a @ post) \<noteq> None"
  proof (induction pre)
    case Nil
    from \<open>a \<noteq> []\<close> obtain c cs where "a @ post = c # cs" by (cases a) auto
    with match_quad_extend [OF q, of post] show ?case by (auto split: option.splits)
  next
    case (Cons x pre)
    then show ?case by (auto split: option.splits)
  qed
  with assms(1) s show False by simp
qed

lemma rows_setcol_const:
  "rows (setcol_const df c v) = map (AList.update c v) (rows df)"
  unfolding setcol_const_def setcol_def
  by (simp add: zip_replicate2 o_def)

lemma cols_setcol_const:
  "cols (setcol_const df c v) = (if c \<in> set (cols df) then cols df else cols df @ [c])"
  unfolding setcol_const_def setcol_def by simp

lemma match_quad_None_prefix:
  assumes "match_quad t = None" "prefix b t"
  shows "\<not> dotted_quad b"
proof
  assume "dotted_quad b"
  then have "match_quad b = Some b" by (simp add: dotted_quad_def)
  moreover from assms(2) obtain zs where "t = b @ zs" by (auto simp: prefix_def)
  ultimately show False using match_quad_extend [of b zs] assms(1) by simp
qed

lemma str_extract_leftmost:
  "str_extract s = Some a \<Longrightarrow>
     \<exists>pre post. s = pre @ a @ post \<and> match_quad (a @ post) = Some a
        \<and> (\<forall>k<length pre. match_quad (drop k s) = None)"
proof (induction s)
  case Nil
  then show ?case by simp
next
  case (Cons c cs)
  show ?case
  proof (cases "match_quad (c # cs)")
    case (Some b)
    with Cons.prems have b: "b = a" by simp
    from match_quad_full(1) [OF Some] b obtain post where "c # cs = a @ post"
      by (auto simp: prefix_def)
    with Some b show ?thesis by (intro exI [of _ "[]"] exI [of _ post]) simp
  next
    case None
    with Cons.prems have "str_extract cs = Some a" by simp
    from Cons.IH [OF this] obtain pre post where
      s: "cs = pre @ a @ post" and m: "match_quad (a @ post) = Some a"
      and l: "\<forall>k<length pre. match_quad (drop k cs) = None"
      by blast
    have "\<forall>k<length (c # pre). match_quad (drop k (c # cs)) = None"
    proof (intro allI impI)
      fix k assume "k < length (c # pre)"
      then show "match_quad (drop k (c # cs)) = None"
        using None l by (cases k) auto
    qed
    with s m show ?thesis by (intro exI [of _ "c # pre"] exI [of _ post]) simp
  qed
qed

lemma str_extract_leftmost_quad:
  assumes "str_extract s = Some a"
  shows "leftmost_quad s a"
proof -
  from str_extract_leftmost [OF assms] obtain pre post where
    s: "s = pre @ a @ post" and m: "match_quad (a @ post) = Some a"
    and l: "\<forall>k<length pre. match_quad (drop k s) = None"
    by blast
  from m obtain rest where r: "a @ post = a @ rest" "rest = [] \<or> \<not> is_digit (hd rest)"
    by (rule match_quadD) auto
  then have post: "post = [] \<or> \<not> is_digit (hd post)" by simp
  have dq: "dotted_quad a" using match_quad_full(2) [OF m] by (simp add: dotted_quad_def)
  have "\<forall>k<length pre. \<forall>b. prefix b (drop k s) \<longrightarrow> \<not> dotted_quad b"
    using l match_quad_None_prefix by blast
  with s post dq show ?thesis unfolding leftmost_quad_def by blast
qed

lemma ip_cell_Str_leftmost:
  "\<exists>a. ip_cell (Str s) = Str a
      \<and> (leftmost_quad s a
         \<or> a = ''127.0.0.1'' \<and> (\<forall>b. sublist b s \<longrightarrow> \<not> dotted_quad b))"
proof (cases "str_extract s")
  case None
  then show ?thesis
    using str_extract_None [OF None] by (auto simp: ip_cell_def dotted_quad_def)
next
  case (Some a)
  then show ?thesis
    using str_extract_leftmost_quad [OF Some] by (auto simp: ip_cell_def)
qed

lemma ip_cell_other: "\<not> is_str c \<Longrightarrow> ip_cell c = Str ''127.0.0.1''"
  by (cases c) (auto simp: ip_cell_def)

lemma list_all2_map_self: "(\<And>x. x \<in> set xs \<Longrightarrow> P x (f x)) \<Longrightarrow> list_all2 P xs (map f xs)"
  by (induction xs) auto

text \<open>
  Claim C10, as amended. For a non-empty record set that has no timestamp and no ip
  column of its own (and whose instance column, when it has one, holds a string), the
  insert operation appends one row per record to the table: the row has the clock
  reading of the insert as timestamp; its ip is the leftmost dotted quad (four runs of
  digits separated by points, the last run taken whole) of the row's instance string, or
  \<^verbatim>\<open>127.0.0.1\<close> when no dotted quad occurs in it, when the instance cell is no string or
  when there is no instance column; and every column of the record set is persisted
  unchanged. An empty record set persists nothing.
\<close>

theorem insert_df_persists:
  "(\<not> empty_df df \<longrightarrow> ''timestamp'' \<notin> set (cols df) \<longrightarrow> ''ip'' \<notin> set (cols df) \<longrightarrow>
      (''instance'' \<in> set (cols df) \<longrightarrow> list_ex is_str (map (\<lambda>r. cell_of r ''instance'') (rows df))) \<longrightarrow>
      (\<exists>stored.
         insert_df df table w =
           (Inr (), w\<lparr>reads := Suc (reads w), tables := tables w @ map (Pair table) stored,
                       stdout := stdout w @ [Inserted (length stored) table]\<rparr>)
         \<and> list_all2 (\<lambda>r p.
              cell_of p ''timestamp'' = Time (clock w (reads w))
              \<and> (\<exists>a. cell_of p ''ip'' = Str a
                   \<and> (case (''instance'' \<in> set (cols df), cell_of r ''instance'') of
                        (True, Str s) \<Rightarrow>
                          leftmost_quad s a
                          \<or> a = ''127.0.0.1'' \<and> (\<forall>b. sublist b s \<longrightarrow> \<not> dotted_quad b)
                      | _ \<Rightarrow> a = ''127.0.0.1''))
              \<and> (\<forall>c\<in>set (cols df). cell_of p c = cell_of r c))
            (rows df) stored))
   \<and> (empty_df df \<longrightarrow>
        insert_df df table w = (Inr (), w\<lparr>stdout := stdout w @ [NoDataToInsert table]\<rparr>))"
proof (intro conjI impI)
  assume "empty_df df"
  then show "insert_df df table w = (Inr (), w\<lparr>stdout := stdout w @ [NoDataToInsert table]\<rparr>)"
    by (simp add: insert_df_def)
next
  assume ne: "\<not> empty_df df" and ts: "''timestamp'' \<notin> set (cols df)"
    and ip: "''ip'' \<notin> set (cols df)"
    and inst: "''instance'' \<in> set (cols df) \<longrightarrow>
                 list_ex is_str (map (\<lambda>r. cell_of r ''instance'') (rows df))"
  define t where "t = Time (clock w (reads w))"
  define ipc where "ipc = (\<lambda>r. if ''instance'' \<in> set (cols df)
                               then ip_cell (cell_of r ''instance'') else Str ''127.0.0.1'')"
  define f where "f = (\<lambda>r. AList.update ''ip'' (ipc r) (AList.update ''timestamp'' t r))"
  have ins: "insert_df df table w =
           (Inr (), w\<lparr>reads := Suc (reads w), tables := tables w @ map (Pair table) (map f (rows df)),
                       stdout := stdout w @ [Inserted (length (map f (rows df))) table]\<rparr>)"
  proof (cases "''instance'' \<in> set (cols df)")
    case True
    with inst have "list_ex is_str (map (\<lambda>r. cell_of r ''instance'') (rows df))" by simp
    then have "list_ex is_str (map (\<lambda>r. cell_of r ''instance'')
                 (rows (setcol_const df ''timestamp'' t)))"
      by (simp add: rows_setcol_const o_def cell_of_update)
    moreover have "map (\<lambda>(r, v). AList.update ''ip'' v r)
             (zip (rows (setcol_const df ''timestamp'' t))
                (map ip_cell (map (\<lambda>r. cell_of r ''instance'') (rows (setcol_const df ''timestamp'' t)))))
           = map f (rows df)"
      unfolding map_map zip_map_self
      by (simp add: rows_setcol_const o_def f_def ipc_def True cell_of_update)
    ultimately show ?thesis
      using ne True
      by (simp add: insert_df_def Let_def err_bind_def getcol_def cols_setcol_const t_def [symmetric]
          setcol_def)
  next
    case False
    have "rows (setcol_const (setcol_const df ''timestamp'' t) ''ip'' (Str ''127.0.0.1''))
            = map f (rows df)"
      by (simp add: rows_setcol_const f_def ipc_def False)
    then show ?thesis
      using ne False
      by (simp add: insert_df_def Let_def cols_setcol_const t_def [symmetric])
  qed
  have each: "cell_of (f r) ''timestamp'' = Time (clock w (reads w))
              \<and> (\<exists>a. cell_of (f r) ''ip'' = Str a
                   \<and> (case (''instance'' \<in> set (cols df), cell_of r ''instance'') of
                        (True, Str s) \<Rightarrow>
                          leftmost_quad s a
                          \<or> a = ''127.0.0.1'' \<and> (\<forall>b. sublist b s \<longrightarrow> \<not> dotted_quad b)
                      | _ \<Rightarrow> a = ''127.0.0.1''))
              \<and> (\<forall>c\<in>set (cols df). cell_of (f r) c = cell_of r c)" for r
  proof (intro conjI)
    show "cell_of (f r) ''timestamp'' = Time (clock w (reads w))"
      by (simp add: f_def cell_of_update t_def)
    show "\<forall>c\<in>set (cols df). cell_of (f r) c = cell_of r c"
      using ts ip by (auto simp: f_def cell_of_update)
    have ipf: "cell_of (f r) ''ip'' = ipc r" by (simp add: f_def cell_of_update)
    show "\<exists>a. cell_of (f r) ''ip'' = Str a
                   \<and> (case (''instance'' \<in> set (cols df), cell_of r ''instance'') of
                        (True, Str s) \<Rightarrow>
                          leftmost_quad s a
                          \<or> a = ''127.0.0.1'' \<and> (\<forall>b. sublist b s \<longrightarrow> \<not> dotted_quad b)
                      | _ \<Rightarrow> a = ''127.0.0.1'')"
    proof (cases "''instance'' \<in> set (cols df)")
      case False
      then show ?thesis unfolding ipf by (simp add: ipc_def)
    next
      case True
      show ?thesis
      proof (cases "cell_of r ''instance''")
        case (Str s)
        with True ip_cell_Str_leftmost [of s] show ?thesis unfolding ipf by (simp add: ipc_def)
      qed (use True in \<open>simp_all add: ipf ipc_def ip_cell_other\<close>)
    qed
  qed
  show "\<exists>stored.
         insert_df df table w =
           (Inr (), w\<lparr>reads := Suc (reads w), tables := tables w @ map (Pair table) stored,
                       stdout := stdout w @ [Inserted (length stored) table]\<rparr>)
         \<and> list_all2 (\<lambda>r p.
              cell_of p ''timestamp'' = Time (clock w (reads w))
              \<and> (\<exists>a. cell_of p ''ip'' = Str a
                   \<and> (case (''instance'' \<in> set (cols df), cell_of r ''instance'') of
                        (True, Str s) \<Rightarrow>
                          leftmost_quad s a
                          \<or> a = ''127.0.0.1'' \<and> (\<forall>b. sublist b s \<longrightarrow> \<not> dotted_quad b)
                      | _ \<Rightarrow> a = ''127.0.0.1''))
              \<and> (\<forall>c\<in>set (cols df). cell_of p c = cell_of r c))
            (rows df) stored"
    by (rule exI [of _ "map f (rows df)"], rule conjI [OF ins])
       (rule list_all2_map_self, rule each)
qed

theorem insert_df_persists_witness:
  "\<not> empty_df ex_instance_frame
   \<and> (\<exists>stored.
         insert_df ex_instance_frame ''ram_stats'' world0 =
           (Inr (), world0\<lparr>reads := Suc (reads world0),
                           tables := tables world0 @ map (Pair ''ram_stats'') stored,
                           stdout := stdout world0 @ [Inserted (length stored) ''ram_stats'']\<rparr>)
         \<and> list_all2 (\<lambda>r p.
              cell_of p ''timestamp'' = Time (clock world0 (reads world0))
              \<and> (\<exists>a. cell_of p ''ip'' = Str a
                   \<and> (case (''instance'' \<in> set (cols ex_instance_frame), cell_of r ''instance'') of
                        (True, Str s) \<Rightarrow>
                          leftmost_quad s a
                          \<or> a = ''127.0.0.1'' \<and> (\<forall>b. sublist b s \<longrightarrow> \<not> dotted_quad b)
                      | _ \<Rightarrow> a = ''127.0.0.1''))
              \<and> (\<forall>c\<in>set (cols ex_instance_frame). cell_of p c = cell_of r c))
            (rows ex_instance_frame) stored)"
proof -
  have h: "\<not> empty_df ex_instance_frame" "''timestamp'' \<notin> set (cols ex_instance_frame)"
    "''ip'' \<notin> set (cols ex_instance_frame)"
    "list_ex is_str (map (\<lambda>r. cell_of r ''instance'') (rows ex_instance_frame))"
    by (simp_all add: ex_instance_frame_def empty_df_def cell_of_def)
  from insert_df_persists [THEN conjunct1, rule_format, OF h, of "''ram_stats''" world0] h(1)
  show ?thesis by (rule conjI [rotated])
qed

lemma ex_instance_stored:
  "tables (snd (insert_df ex_instance_frame ''ram_stats'' world0)) =
     [(''ram_stats'', [(''instance'', Str ''10.1.2.3:9100''), (''bytes'', Num 5),
                       (''timestamp'', Time 0), (''ip'', Str ''10.1.2.3'')]),
      (''ram_stats'', [(''instance'', Str ''localhost:9100''), (''bytes'', Num 7),
                       (''timestamp'', Time 0), (''ip'', Str ''127.0.0.1'')])]"
  by code_simp

theorem insert_df_overwrites_counterexample:
  "\<not> empty_df ex_ip_frame
   \<and> cell_of (hd (rows ex_ip_frame)) ''ip'' = Str ''10.0.0.1''
   \<and> tables (snd (insert_df ex_ip_frame ''disk_free_space'' world0)) =
       [(''disk_free_space'',
         [(''ip'', Str ''127.0.0.1''), (''bytes'', Num 5), (''timestamp'', Time 0)])]
   \<and> \<not> empty_df ex_number_frame
   \<and> fst (insert_df ex_number_frame ''ram_stats'' world0) = Inl AttributeError
   \<and> tables (snd (insert_df ex_number_frame ''ram_stats'' world0)) = []
   \<and> \<not> empty_df ex_octet_frame
   \<and> tables (snd (insert_df ex_octet_frame ''ram_stats'' world0)) =
       [(''ram_stats'',
         [(''instance'', Str ''999.300.1.2:9100''), (''bytes'', Num 5),
          (''timestamp'', Time 0), (''ip'', Str ''999.300.1.2'')])]"
  by code_simp

section \<open>Properties of the collection cycle\<close>

text \<open>The collectors evaluated on the example scrapes.\<close>

lemma ex_rx1: "parse_metric (Labelled ''node_network_receive_bytes_total'') ex_text1 ''value'' =
   Inr \<lparr>cols = [''device'', ''value''], rows = [[(''device'', Str ''eth0''), (''value'', Num 0)]]\<rparr>"
  by code_simp
lemma ex_rx2: "parse_metric (Labelled ''node_network_receive_bytes_total'') ex_text2_nofs ''value'' =
   Inr \<lparr>cols = [''device'', ''value''], rows = [[(''device'', Str ''eth0''), (''value'', Num 600)]]\<rparr>"
  by code_simp
lemma ex_tx1: "parse_metric (Labelled ''node_network_transmit_bytes_total'') ex_text1 ''value'' =
   Inr \<lparr>cols = [''device'', ''value''], rows = [[(''device'', Str ''eth0''), (''value'', Num 40)]]\<rparr>"
  by code_simp
lemma ex_tx2: "parse_metric (Labelled ''node_network_transmit_bytes_total'') ex_text2_nofs ''value'' =
   Inr \<lparr>cols = [''device'', ''value''], rows = [[(''device'', Str ''eth0''), (''value'', Num 100)]]\<rparr>"
  by code_simp

lemma try_pure_weak_cong: "m = m' \<Longrightarrow> try_pure m f w = try_pure m' f w"
  by simp

lemma and_then_weak_cong: "and_then m k w = and_then m k w"
  by simp

lemmas collectors_applied =
  store_cpu_def [THEN fun_cong] store_memory_def [THEN fun_cong]
  store_disk_free_def [THEN fun_cong] store_bandwidth_def [THEN fun_cong]
  store_bandwidth_mode_def [THEN fun_cong] store_disk_iops_throughput_def [THEN fun_cong]
  main_def [THEN fun_cong]

lemmas frame_ops = calculate_rate_def err_bind_def merge_def getcol_def setcol_def setcol_const_def
  series_sub_def series_map_def cell_of_def select_def rename_def default_instance_def empty_df_def
  try_pure_def and_then_def return_unit_def emit_def insert_df_def Let_def

lemma ex_store_bandwidth:
  "store_bandwidth ex_text1 ex_text2_nofs w =
     (Inr (), w\<lparr>reads := Suc (Suc (reads w)),
       tables := tables w @
         [(''bandwidth'',
           [(''metric_name'', Str ''node_network_receive_bytes_total''),
            (''mode'', Str ''receive''), (''value'', Num 10),
            (''value_mbps'', Num (5 / 65536)), (''timestamp'', Time (clock w (reads w))),
            (''ip'', Str ''127.0.0.1'')]),
          (''bandwidth'',
           [(''metric_name'', Str ''node_network_transmit_bytes_total''),
            (''mode'', Str ''transmit''), (''value'', Num 1),
            (''value_mbps'', Num (1 / 131072)), (''timestamp'', Time (clock w (Suc (reads w)))),
            (''ip'', Str ''127.0.0.1'')])],
       stdout := stdout w @ [Inserted 1 ''bandwidth'', Inserted 1 ''bandwidth'']\<rparr>)"
  by (simp add: collectors_applied ex_rx1 ex_rx2 ex_tx1 ex_tx2 frame_ops
      cong: try_pure_weak_cong and_then_weak_cong)

lemma ex_mem2: "parse_metric (OptLabelled ''node_memory_MemAvailable_bytes'') ex_text2_nofs ''bytes'' =
   Inr \<lparr>cols = [''bytes''], rows = [[(''bytes'', Num 4096)]]\<rparr>"
  by code_simp
lemma ex_fs2: "parse_metric (Labelled ''node_filesystem_free_bytes'') ex_text2_nofs ''bytes'' =
   Inr \<lparr>cols = [], rows = []\<rparr>"
  by code_simp
lemma ex_cpu1: "parse_metric (Labelled ''node_cpu_seconds_total'') ex_text1 ''value'' =
   Inr \<lparr>cols = [''cpu'', ''mode'', ''value''], rows = [[(''cpu'', Str ''0''), (''mode'', Str ''idle''), (''value'', Num 100)]]\<rparr>"
  by code_simp
lemma ex_cpu2: "parse_metric (Labelled ''node_cpu_seconds_total'') ex_text2_nofs ''value'' =
   Inr \<lparr>cols = [''cpu'', ''mode'', ''value''], rows = [[(''cpu'', Str ''0''), (''mode'', Str ''idle''), (''value'', Num 130)]]\<rparr>"
  by code_simp

lemma ex_store_memory:
  "store_memory ex_text2_nofs w =
     (Inr (), w\<lparr>reads := Suc (reads w),
       tables := tables w @
         [(''ram_stats'',
           [(''metric'', Str ''MemAvailable''), (''bytes'', Num 4096),
            (''timestamp'', Time (clock w (reads w))), (''ip'', Str ''127.0.0.1'')])],
       stdout := stdout w @ [Inserted 1 ''ram_stats'']\<rparr>)"
  by (simp add: collectors_applied ex_mem2 frame_ops cong: try_pure_weak_cong and_then_weak_cong)

lemma ex_store_disk_free:
  "store_disk_free ex_text2_nofs w = (Inl (KeyError ''volume''), w)"
  by (simp add: collectors_applied ex_fs2 frame_ops cong: try_pure_weak_cong and_then_weak_cong)

lemma ex_store_cpu:
  "store_cpu ex_text1 ex_text2_nofs w =
     (Inr (), w\<lparr>reads := Suc (reads w),
       tables := tables w @
         [(''cpu_cstate_rates'',
           [(''core'', Str ''0''), (''state'', Str ''idle''), (''rate_per_sec'', Num (1 / 2)),
            (''timestamp'', Time (clock w (reads w))), (''ip'', Str ''127.0.0.1'')])],
       stdout := stdout w @ [Inserted 1 ''cpu_cstate_rates'']\<rparr>)"
  by (simp add: collectors_applied ex_cpu1 ex_cpu2 frame_ops cong: try_pure_weak_cong and_then_weak_cong)

lemma ex_main:
  "observe (main (Inr ex_text1) (Inr ex_text2_nofs) world0) =
  (Inl (KeyError ''volume''),
   [(''bandwidth'',
     [(''metric_name'', Str ''node_network_receive_bytes_total''),
      (''mode'', Str ''receive''), (''value'', Num 10),
      (''value_mbps'', Num (5 / 65536)), (''timestamp'', Time 0),
      (''ip'', Str ''127.0.0.1'')]),
    (''bandwidth'',
     [(''metric_name'', Str ''node_network_transmit_bytes_total''),
      (''mode'', Str ''transmit''), (''value'', Num 1),
      (''value_mbps'', Num (1 / 131072)), (''timestamp'', Time 1),
      (''ip'', Str ''127.0.0.1'')]),
    (''ram_stats'',
     [(''metric'', Str ''MemAvailable''), (''bytes'', Num 4096),
      (''timestamp'', Time 2), (''ip'', Str ''127.0.0.1'')])],
   [FetchingFirst, FetchingSecond, Inserted 1 ''bandwidth'',
    Inserted 1 ''bandwidth'', Inserted 1 ''ram_stats''],
   10)"
  by (simp add: main_def [THEN fun_cong] observe_def and_then_def try_pure_def emit_def time_sleep_def
      sleep_seconds_def ex_store_bandwidth ex_store_memory ex_store_disk_free world0_def
      cong: try_pure_weak_cong and_then_weak_cong)

lemma run_until_error_fails:
  assumes "i < length cs"
    and "run_until_error (take i cs) w0 = (Inr (), w1)"
    and "(cs ! i) w1 = (Inl e, w2)"
  shows "run_until_error cs w0 = (Inl e, w2)"
  using assms
proof (induction cs arbitrary: i w0)
  case Nil
  then show ?case by simp
next
  case (Cons c cs)
  show ?case
  proof (cases i)
    case 0
    with Cons.prems show ?thesis by (simp add: return_unit_def and_then_def)
  next
    case (Suc j)
    with Cons.prems(2) obtain w' where c: "c w0 = (Inr (), w')"
      and rest: "run_until_error (take j cs) w' = (Inr (), w1)"
      by (auto simp: and_then_def split: prod.splits sum.splits)
    from Cons.prems(1,3) Suc have "j < length cs" "(cs ! j) w1 = (Inl e, w2)" by simp_all
    from Cons.IH [OF this(1) rest this(2)] c show ?thesis
      by (simp add: and_then_def)
  qed
qed

lemma main_as_sequence:
  "main (Inr text1) (Inr text2) w =
     and_then (run_until_error (collectors text1 text2)) (emit AllStored) (after_fetches w)"
proof -
  have assoc: "and_then a (and_then b k) = and_then (and_then a b) k" for a b and k :: "unit io"
    by (auto simp: and_then_def fun_eq_iff split: prod.splits sum.splits)
  have unit: "and_then m return_unit = m" for m :: "unit io"
    by (auto simp: and_then_def return_unit_def fun_eq_iff split: prod.splits sum.splits)
  have "run_until_error (collectors text1 text2) =
      and_then (store_bandwidth text1 text2) (and_then (store_memory text2)
        (and_then (store_disk_free text2) (and_then (store_cpu text1 text2)
          (store_disk_iops_throughput text1 text2))))"
    by (simp add: collectors_def unit)
  then have "and_then (run_until_error (collectors text1 text2)) (emit AllStored) =
      and_then (store_bandwidth text1 text2) (and_then (store_memory text2)
        (and_then (store_disk_free text2) (and_then (store_cpu text1 text2)
          (and_then (store_disk_iops_throughput text1 text2) (emit AllStored)))))"
    by (simp add: assoc)
  then show ?thesis
    by (simp add: main_def [THEN fun_cong] and_then_def try_pure_def emit_def time_sleep_def
        after_fetches_def)
qed

lemma appends_only_insert_df: "appends_only (insert_df df t)"
  by (auto simp: appends_only_def insert_df_def Let_def err_bind_def split: sum.splits)

lemma appends_only_try_pure: "(\<And>x. appends_only (f x)) \<Longrightarrow> appends_only (try_pure m f)"
  by (auto simp: appends_only_def try_pure_def split: sum.splits)

lemma appends_only_and_then:
  "appends_only m \<Longrightarrow> appends_only k \<Longrightarrow> appends_only (and_then m k)"
  unfolding appends_only_def and_then_def
proof
  fix w
  assume m: "\<forall>w. prefix (tables w) (tables (snd (m w)))"
    and k: "\<forall>w. prefix (tables w) (tables (snd (k w)))"
  obtain r w' where mw: "m w = (r, w')" by (cases "m w")
  from m mw have 1: "prefix (tables w) (tables w')" by (metis snd_conv)
  from k have 2: "prefix (tables w') (tables (snd (k w')))" by simp
  from 1 2 have "prefix (tables w) (tables (snd (k w')))" by (rule prefix_order.trans)
  with 1 mw show "prefix (tables w)
          (tables (snd (case m w of (Inl e, w') \<Rightarrow> (Inl e, w') | (Inr x, w') \<Rightarrow> k w')))"
    by (cases r) auto
qed

lemma appends_only_basic:
  "appends_only return_unit" "appends_only (emit d)" "appends_only (time_sleep s)"
  by (simp_all add: appends_only_def return_unit_def emit_def time_sleep_def)

lemma appends_only_if:
  "appends_only a \<Longrightarrow> appends_only b \<Longrightarrow> appends_only (if c then a else b)"
  by simp

lemmas appends_only_rules = appends_only_insert_df appends_only_try_pure appends_only_and_then
  appends_only_basic appends_only_if

lemma appends_only_collectors:
  "appends_only (store_bandwidth text1 text2)"
  "appends_only (store_memory text2)"
  "appends_only (store_disk_free text2)"
  "appends_only (store_cpu text1 text2)"
  "appends_only (store_disk_iops_throughput text1 text2)"
  unfolding store_bandwidth_def store_bandwidth_mode_def store_memory_def store_disk_free_def
    store_cpu_def store_disk_iops_throughput_def Let_def
  by (intro appends_only_rules)+

lemma appends_only_run: "(\<And>c. c \<in> set cs \<Longrightarrow> appends_only c) \<Longrightarrow> appends_only (run_until_error cs)"
  by (induction cs) (auto intro: appends_only_rules)

text \<open>
  Claim C2, as amended. The cycle stops at the first collector that raises: when the
  collectors before it have run to completion and it ends with an error, the cycle
  ends with that error in the state the failing collector left, so no later collector
  runs; the rows stored before the cycle and by the earlier collectors stay stored.
\<close>

theorem main_fail_fast:
  assumes "i < length (collectors text1 text2)"
    and "run_until_error (take i (collectors text1 text2)) (after_fetches w) = (Inr (), w1)"
    and "(collectors text1 text2 ! i) w1 = (Inl e, w2)"
  shows "main (Inr text1) (Inr text2) w = (Inl e, w2)
         \<and> prefix (tables w) (tables w1) \<and> prefix (tables w1) (tables w2)"
proof -
  have "run_until_error (collectors text1 text2) (after_fetches w) = (Inl e, w2)"
    using assms by (rule run_until_error_fails)
  then have m: "main (Inr text1) (Inr text2) w = (Inl e, w2)"
    by (simp add: main_as_sequence and_then_def)
  have all: "appends_only c" if "c \<in> set (collectors text1 text2)" for c
    using that appends_only_collectors by (auto simp: collectors_def)
  have "appends_only (run_until_error (take i (collectors text1 text2)))"
    by (rule appends_only_run) (auto dest: in_set_takeD intro: all)
  then have "prefix (tables (after_fetches w)) (tables w1)"
    using assms(2) unfolding appends_only_def by (metis snd_conv)
  then have p1: "prefix (tables w) (tables w1)" by (simp add: after_fetches_def)
  have "appends_only (collectors text1 text2 ! i)"
    using assms(1) by (intro all nth_mem)
  then have p2: "prefix (tables w1) (tables w2)"
    using assms(3) unfolding appends_only_def by (metis snd_conv)
  from m p1 p2 show ?thesis by simp
qed

theorem main_fail_fast_witness:
  "2 < length (collectors ex_text1 ex_text2_nofs)
   \<and> (\<exists>w1. run_until_error (take 2 (collectors ex_text1 ex_text2_nofs)) (after_fetches world0)
               = (Inr (), w1)
          \<and> (collectors ex_text1 ex_text2_nofs ! 2) w1 = (Inl (KeyError ''volume''), w1)
          \<and> main (Inr ex_text1) (Inr ex_text2_nofs) world0 = (Inl (KeyError ''volume''), w1)
          \<and> prefix (tables world0) (tables w1))"
proof -
  have len: "2 < length (collectors ex_text1 ex_text2_nofs)" by (simp add: collectors_def)
  obtain w1 where run: "run_until_error (take 2 (collectors ex_text1 ex_text2_nofs))
                          (after_fetches world0) = (Inr (), w1)"
    by (simp add: collectors_def numeral_2_eq_2 and_then_def return_unit_def
        ex_store_bandwidth ex_store_memory)
  have fail: "(collectors ex_text1 ex_text2_nofs ! 2) w1 = (Inl (KeyError ''volume''), w1)"
    by (simp add: collectors_def ex_store_disk_free)
  from main_fail_fast [OF len run fail] len run fail show ?thesis by blast
qed

theorem main_isolation_counterexample:
  "observe (main (Inr ex_text1) (Inr ex_text2_nofs) world0) =
     (Inl (KeyError ''volume''),
      [(''bandwidth'',
        [(''metric_name'', Str ''node_network_receive_bytes_total''),
         (''mode'', Str ''receive''), (''value'', Num 10),
         (''value_mbps'', Num (5 / 65536)), (''timestamp'', Time 0),
         (''ip'', Str ''127.0.0.1'')]),
       (''bandwidth'',
        [(''metric_name'', Str ''node_network_transmit_bytes_total''),
         (''mode'', Str ''transmit''), (''value'', Num 1),
         (''value_mbps'', Num (1 / 131072)), (''timestamp'', Time 1),
         (''ip'', Str ''127.0.0.1'')]),
       (''ram_stats'',
        [(''metric'', Str ''MemAvailable''), (''bytes'', Num 4096),
         (''timestamp'', Time 2), (''ip'', Str ''127.0.0.1'')])],
      [FetchingFirst, FetchingSecond, Inserted 1 ''bandwidth'',
       Inserted 1 ''bandwidth'', Inserted 1 ''ram_stats''],
      10)
   \<and> observe (store_cpu ex_text1 ex_text2_nofs world0) =
     (Inr (),
      [(''cpu_cstate_rates'',
        [(''core'', Str ''0''), (''state'', Str ''idle''), (''rate_per_sec'', Num (1 / 2)),
         (''timestamp'', Time 0), (''ip'', Str ''127.0.0.1'')])],
      [Inserted 1 ''cpu_cstate_rates''], 0)"
  by (simp add: ex_main) (simp add: ex_store_cpu observe_def world0_def)


section \<open>Properties of the disk-free collector\<close>

lemma ex_mem1: "parse_metric (OptLabelled ''node_memory_MemAvailable_bytes'') ex_text1 ''bytes'' =
   Inr \<lparr>cols = [], rows = []\<rparr>"
  by code_simp

lemma ex_store_memory_absent: "store_memory ex_text1 w = (Inr (), w)"
  by (simp add: collectors_applied ex_mem1 frame_ops cong: try_pure_weak_cong and_then_weak_cong)

text \<open>
  Claim C8 (a defect of the code). When the scrape has no sample of the disk-free
  family, the parsed table has neither a \<^verbatim>\<open>mountpoint\<close> nor a \<^verbatim>\<open>volume\<close> column, and the
  disk-free collector ends with \<^verbatim>\<open>KeyError: 'volume'\<close>: it stores nothing and prints
  nothing. The collector tests for the \<^verbatim>\<open>mountpoint\<close> column before renaming it, and the
  CPU collector tests for an empty table and prints a line; the memory collector on an
  absent family returns with nothing stored and nothing printed.
\<close>

theorem store_disk_free_absent_family:
  assumes "parse_metric (Labelled ''node_filesystem_free_bytes'') text ''bytes'' = Inr df"
    and "''mountpoint'' \<notin> set (cols df)" and "''volume'' \<notin> set (cols df)"
  shows "store_disk_free text w = (Inl (KeyError ''volume''), w)"
  using assms by (simp add: store_disk_free_def try_pure_def getcol_def)

theorem store_disk_free_absent_family_witness:
  "parse_metric (Labelled ''node_filesystem_free_bytes'') ex_text2_nofs ''bytes''
     = Inr \<lparr>cols = [], rows = []\<rparr>
   \<and> store_disk_free ex_text2_nofs world0 = (Inl (KeyError ''volume''), world0)
   \<and> store_memory ex_text1 world0 = (Inr (), world0)"
  using store_disk_free_absent_family [OF ex_fs2, of world0] ex_fs2 ex_store_memory_absent
  by simp


section \<open>Properties of the parser\<close>













section \<open>Properties of the monthly CPU utilisation\<close>

text \<open>
  Claim C7 (a defect of the code). When every rate of a timestamp is 0, the monthly
  report divides 0 by 0: the utilisation of the timestamp is NaN, and a month of such
  timestamps only has the utilisation NaN, not 0. The report replaces the missing
  sums by 0 before the division and nothing after it; the same computation in the
  dashboard export (\<^verbatim>\<open>sheet_to_looker.py\<close>) ends with \<^verbatim>\<open>.fillna(0)\<close>.
\<close>

theorem process_cpu_utilization_zero_total:
  "process_cpu_utilization month_of ex_idle_rows = [(month_of 1700000000, NaNf)]"
  by (simp add: process_cpu_utilization_def ex_idle_rows_def group_sum_def fl_div_def mean_def
      finite_values_def Let_def)


section \<open>Properties of the round trip\<close>


























lemma ex_samples_parse:
  "parse_metric (Labelled ex_family) (serialize ex_family ex_samples) ''bytes'' =
     Inr \<lparr>cols = [''mountpoint'', ''device'', ''bytes''],
          rows = [[(''mountpoint'', Str ''/''), (''device'', Str ''sda1''),
                   (''bytes'', Num 5000000000)],
                  [(''mountpoint'', Str ''/run/user/1000''), (''device'', NaN),
                   (''bytes'', Num (25 / 2))]]\<rparr>"
  by code_simp



end
